theory Spec2Isabelle
  imports Complex_Main
begin

section \<open>Shallow embedding of \<open>gen_conf_downloader.py\<close>\<close>

text \<open>
  The conference downloader is a single Python module. Its pure helpers are
  embedded as HOL functions of the same name. Python values are modelled as
  follows: \<open>str\<close> as \<open>string\<close> (code points below 256), \<open>int\<close> as
  \<open>int\<close>, \<open>float\<close> as \<open>real\<close> with exact arithmetic (binary rounding of
  IEEE doubles is outside the model), a \<open>namedtuple\<close> as a datatype with
  selectors, and a dictionary of named fields as a record.
\<close>

subsection \<open>Python primitives used by the module\<close>

text \<open>\<open>str(n)\<close> for a Python integer: decimal digits, a leading minus sign for
  negative numbers.\<close>

definition digit_char :: "nat \<Rightarrow> char" where
  "digit_char n = ''0123456789'' ! n"

function str_nat :: "nat \<Rightarrow> string" where
  "str_nat n = (if n < 10 then [digit_char n] else str_nat (n div 10) @ [digit_char (n mod 10)])"
  by pat_completeness auto
termination
  by (relation "measure id") auto

declare str_nat.simps [simp del]

definition str_int :: "int \<Rightarrow> string" where
  "str_int i = (if i < 0 then CHR ''-'' # str_nat (nat (- i)) else str_nat (nat i))"

text \<open>\<open>x % y\<close> on floats takes the sign of the divisor: \<open>x - y * floor (x / y)\<close>.
  \<open>int(x)\<close> truncates towards zero.\<close>

definition py_float_mod :: "real \<Rightarrow> real \<Rightarrow> real" where
  "py_float_mod x y = x - y * of_int \<lfloor>x / y\<rfloor>"

definition py_int :: "real \<Rightarrow> int" where
  "py_int x = (if 0 \<le> x then \<lfloor>x\<rfloor> else \<lceil>x\<rceil>)"

subsection \<open>Duration text and playlist summary\<close>

text \<open>
  \<^verbatim>\<open>
  def get_duration_text(duration_secs):
      mins = int((duration_secs / 60) % 60)
      hours = int((duration_secs / (60 * 60)) % 24)
      days = int((duration_secs / (60 * 60 * 24)) % 7)
      weeks = int((duration_secs / (60 * 60 * 24 * 7)))
      text = ''
      if weeks: text += f'{weeks}w'
      if days:  text += f'{days}d'
      if hours: text += f'{hours}h'
      if mins:  text += f'{mins}m'
      return text
  \<close>
\<close>

definition get_duration_text :: "real \<Rightarrow> string" where
  "get_duration_text duration_secs =
    (let mins = py_int (py_float_mod (duration_secs / 60) 60);
         hours = py_int (py_float_mod (duration_secs / (60 * 60)) 24);
         days = py_int (py_float_mod (duration_secs / (60 * 60 * 24)) 7);
         weeks = py_int (duration_secs / (60 * 60 * 24 * 7));
         text = [];
         text = (if weeks \<noteq> 0 then text @ str_int weeks @ ''w'' else text);
         text = (if days \<noteq> 0 then text @ str_int days @ ''d'' else text);
         text = (if hours \<noteq> 0 then text @ str_int hours @ ''h'' else text);
         text = (if mins \<noteq> 0 then text @ str_int mins @ ''m'' else text)
     in text)"

text \<open>
  \<open>get_playlist_info\<close> builds the summary that becomes part of a playlist's file
  name. \<open>first\<close>, \<open>last\<close> and \<open>count\<close> are integers; an integer is true when
  it is not zero. (The four local variables the source computes and never reads
  are left out.)
\<close>

definition get_playlist_info :: "int \<Rightarrow> int \<Rightarrow> int \<Rightarrow> real \<Rightarrow> string" where
  "get_playlist_info first last' count duration_secs =
    (let text = (if first \<noteq> 0 \<and> last' \<noteq> 0
                 then str_int first @ ''-'' @ str_int last' @ '', '' else []);
         text = (if count \<noteq> 0 then text @ str_int count @ '', '' else text)
     in text @ get_duration_text duration_secs)"

subsection \<open>External collaborators\<close>

text \<open>
  Library calls whose code is not part of the module are parameters of the
  model, collected in one record:
  \<^item> \<open>html_feed\<close>: \<open>HTMLParser.feed\<close> with \<open>convert_charrefs\<close>; the list of
    strings the parser hands to \<open>handle_data\<close>, in order;
  \<^item> \<open>html_unescape\<close>, \<open>quote_plus\<close>, \<open>unquote_plus\<close>: the functions of the
    same name of \<open>html\<close> and \<open>urllib.parse\<close>;
  \<^item> \<open>urlopen\<close>: the body of the response to a request for a URL, \<open>None\<close>
    when the request raises;
  \<^item> \<open>decompress\<close>: \<open>zlib.decompress\<close> followed by UTF-8 decoding, \<open>None\<close>
    when either raises;
  \<^item> \<open>mp3_length\<close>: \<open>MP3(file).info.length\<close> of a file with the given
    content, \<open>None\<close> when mutagen raises;
  \<^item> \<open>id3_save\<close>: the content of an audio file after its tags (album,
    title) have been set and saved;
  \<^item> \<open>tqdm\<close>: the progress bar class the main block selects (the library's
    \<open>tqdm\<close>, \<open>DummyTqdm\<close> or \<open>GuiTqdm\<close>), and \<open>cancel_poll\<close>: which read of
    the progress window's events, if any, sees the user's Cancel.
\<close>

datatype tqdm_kind = Tqdm | DummyTqdm | GuiTqdm

record lib =
  html_feed :: "string \<Rightarrow> string list"
  html_unescape :: "string \<Rightarrow> string"
  quote_plus :: "string \<Rightarrow> string"
  unquote_plus :: "string \<Rightarrow> string"
  urlopen :: "string \<Rightarrow> string option"
  decompress :: "string \<Rightarrow> string option"
  mp3_length :: "string \<Rightarrow> real option"
  id3_save :: "string \<Rightarrow> string \<Rightarrow> string \<Rightarrow> string"
  tqdm :: tqdm_kind
  cancel_poll :: "nat option"

text \<open>The configuration record \<open>args\<close> that \<open>argparse\<close> and the main block
  build (\<open>end\<close> is called \<open>end_year\<close> here).\<close>

record args =
  lang :: string
  speaker_min :: int
  start :: int
  end_year :: int
  dest :: string
  nocleanup :: bool
  verbose :: bool
  nonumbers :: bool
  noplaylists :: bool
  min_year :: int
  max_year :: int
  cache_home :: string

subsection \<open>Title cleaning\<close>

text \<open>
  \<open>str.isalnum\<close> and \<open>str.isspace\<close> on the code points below 256.
\<close>

definition isalnum :: "char \<Rightarrow> bool" where
  "isalnum c =
    (let n = (of_char c :: nat) in
       (48 \<le> n \<and> n \<le> 57) \<or> (65 \<le> n \<and> n \<le> 90) \<or> (97 \<le> n \<and> n \<le> 122) \<or>
       n = 170 \<or> (178 \<le> n \<and> n \<le> 179) \<or> n = 181 \<or> (185 \<le> n \<and> n \<le> 186) \<or>
       (188 \<le> n \<and> n \<le> 190) \<or> (192 \<le> n \<and> n \<le> 214) \<or> (216 \<le> n \<and> n \<le> 246) \<or>
       248 \<le> n)"

definition isspace :: "char \<Rightarrow> bool" where
  "isspace c =
    (let n = (of_char c :: nat) in
       (9 \<le> n \<and> n \<le> 13) \<or> (28 \<le> n \<and> n \<le> 32) \<or> n = 133 \<or> n = 160)"

definition rstrip :: "string \<Rightarrow> string" where
  "rstrip s = rev (dropWhile isspace (rev s))"

text \<open>
  \<^verbatim>\<open>
  class MLStripper(HTMLParser):
      def handle_data(self, d): self.text.write(d)
      def get_data(self): return self.text.getvalue()

  def clean_title(title):
      s = MLStripper()
      s.feed(title)
      keepcharacters = (' ', '-', '_', '.')
      return "".join(c for c in s.get_data()
                     if c.isalnum() or c in keepcharacters).rstrip()
  \<close>
\<close>

definition MLStripper_get_data :: "lib \<Rightarrow> string \<Rightarrow> string" where
  "MLStripper_get_data L title = concat (html_feed L title)"

definition keepcharacters :: "char list" where
  "keepcharacters = [CHR '' '', CHR ''-'', CHR ''_'', CHR ''.'']"

definition clean_title :: "lib \<Rightarrow> string \<Rightarrow> string" where
  "clean_title L title =
     rstrip (filter (\<lambda>c. isalnum c \<or> c \<in> set keepcharacters) (MLStripper_get_data L title))"

text \<open>
  A small markup remover, used where an example needs a concrete parser: text
  outside \<open><...>\<close> is data, one chunk per run. It stands in for the library's
  parser only on such examples.
\<close>

fun simple_feed :: "bool \<Rightarrow> string \<Rightarrow> string \<Rightarrow> string list" where
  "simple_feed in_tag acc [] = (if acc = [] then [] else [rev acc])"
| "simple_feed in_tag acc (c # cs) =
     (if in_tag then (if c = CHR ''>'' then simple_feed False [] cs else simple_feed True [] cs)
      else if c = CHR ''<'' then (if acc = [] then [] else [rev acc]) @ simple_feed True [] cs
      else simple_feed False (c # acc) cs)"

subsection \<open>Playlist files\<close>

text \<open>
  A playlist entry is the dictionary \<open>update_playlists\<close> builds: duration in
  seconds, relative path, title and conference year (all four keys are always
  present). The output tree is a map from path to file content.
\<close>

record playlist_entry =
  entry_duration :: real
  entry_path :: string
  entry_title :: string
  entry_year :: int

type_synonym files = "string \<rightharpoonup> string"

definition get_output_dir :: "args \<Rightarrow> string" where
  "get_output_dir a = dest a @ ''/GeneralConference ('' @ lang a @ '')''"

text \<open>
  \<open>glob.glob\<close> for the patterns the module builds: \<open>*\<close> matches any run of
  characters other than the path separator, every other character matches
  itself (the other wildcards of \<open>glob\<close> are not modelled).
\<close>

fun glob_match :: "string \<Rightarrow> string \<Rightarrow> bool" where
  "glob_match [] s = (s = [])"
| "glob_match (p # ps) [] = (p = CHR ''*'' \<and> glob_match ps [])"
| "glob_match (p # ps) (c # cs) =
     (if p = CHR ''*'' then glob_match ps (c # cs) \<or> (c \<noteq> CHR ''/'' \<and> glob_match (p # ps) cs)
      else c = p \<and> glob_match ps cs)"

definition remove_playlist_files :: "string \<Rightarrow> files \<Rightarrow> files" where
  "remove_playlist_files file_pattern fs = (\<lambda>p. if glob_match file_pattern p then None else fs p)"

definition str_replace :: "char \<Rightarrow> char \<Rightarrow> string \<Rightarrow> string" where
  "str_replace a b s = map (\<lambda>c. if c = a then b else c) s"

text \<open>
  \<^verbatim>\<open>
  def write_playlist_file(args, playlist_path, playlist_data):
      remove_playlist_files(f'{get_output_dir(args)}/{playlist_path}*.m3u')
      if not playlist_data:
          return
      # If speaker playlist then check minimum talks limit before writing playlist
      first = playlist_data[0].get('year')
      last = playlist_data[-1].get('year')
      if not first or not last or len(playlist_data) >= args.speaker_min:
          count = len(playlist_data)
          playlist_info = get_playlist_info(first, last, count,
              sum(audio_info['duration'] for audio_info in playlist_data))
          file_path = f'{get_output_dir(args)}/{playlist_path}-({playlist_info}).m3u'
          ...
          with open(file_path, "w") as f:
              f.write("#EXTM3U\n\n")
              for audio_info in playlist_data:
                  f.write(f"#EXTINF:{get_duration_text(audio_info['duration'])}, {audio_info['title']}\n")
                  f.write(audio_info['path'].replace("/","\\"))
                  f.write("\n\n")
  \<close>
  Creating directories and writing a file are taken to succeed.
\<close>

definition playlist_entry_text :: "playlist_entry \<Rightarrow> string" where
  "playlist_entry_text audio_info =
     ''#EXTINF:'' @ get_duration_text (entry_duration audio_info) @ '', '' @ entry_title audio_info
       @ [CHR 0x0A]
     @ str_replace CHR ''/'' (CHR 0x5C) (entry_path audio_info)
     @ [CHR 0x0A, CHR 0x0A]"

definition playlist_file_text :: "playlist_entry list \<Rightarrow> string" where
  "playlist_file_text playlist_data =
     ''#EXTM3U'' @ [CHR 0x0A, CHR 0x0A] @ concat (map playlist_entry_text playlist_data)"

definition playlist_file_path :: "args \<Rightarrow> string \<Rightarrow> playlist_entry list \<Rightarrow> string" where
  "playlist_file_path a playlist_path playlist_data =
     (let first = entry_year (hd playlist_data);
          last' = entry_year (last playlist_data);
          count = int (length playlist_data);
          playlist_info = get_playlist_info first last' count
                            (sum_list (map entry_duration playlist_data))
      in get_output_dir a @ ''/'' @ playlist_path @ ''-('' @ playlist_info @ '').m3u'')"

definition write_playlist_file :: "args \<Rightarrow> string \<Rightarrow> playlist_entry list \<Rightarrow> files \<Rightarrow> files" where
  "write_playlist_file a playlist_path playlist_data fs =
     (let fs = remove_playlist_files (get_output_dir a @ ''/'' @ playlist_path @ ''*.m3u'') fs
      in if playlist_data = [] then fs
         else
           let first = entry_year (hd playlist_data);
               last' = entry_year (last playlist_data)
           in if first = 0 \<or> last' = 0 \<or> int (length playlist_data) \<ge> speaker_min a
              then fs(playlist_file_path a playlist_path playlist_data
                        \<mapsto> playlist_file_text playlist_data)
              else fs)"

subsection \<open>Regular expressions\<close>

text \<open>
  The module extracts everything with \<open>re\<close>. Its patterns use literal
  characters, the classes \<open>.\<close>, \<open>\d\<close>, \<open>[A-Z]\<close>, \<open>[a-z]\<close>, \<open>[^c]\<close>,
  greedy and lazy stars of one class, and groups that are not nested. A pattern
  is a list of such items, and \<open>rmatch\<close> is the backtracking matcher of \<open>re\<close>
  on them: a greedy star first takes one more character, a lazy star first
  tries the rest of the pattern. \<open>rmatch r s cur gs\<close> returns the groups and
  the unread input; \<open>cur\<close> holds (reversed) what was read since the last group
  opened, \<open>gs\<close> the groups closed so far.
\<close>

datatype cclass = Chr char | NotChr char | Dot | DotAll | Digit | Upper | Lower

fun cmatch :: "cclass \<Rightarrow> char \<Rightarrow> bool" where
  "cmatch (Chr c) x = (x = c)"
| "cmatch (NotChr c) x = (x \<noteq> c)"
| "cmatch Dot x = (x \<noteq> CHR 0x0A)"
| "cmatch DotAll x = True"
| "cmatch Digit x = (48 \<le> (of_char x :: nat) \<and> (of_char x :: nat) \<le> 57)"
| "cmatch Upper x = (65 \<le> (of_char x :: nat) \<and> (of_char x :: nat) \<le> 90)"
| "cmatch Lower x = (97 \<le> (of_char x :: nat) \<and> (of_char x :: nat) \<le> 122)"

datatype rx = One cclass | Star cclass | LazyStar cclass | GOpen | GClose

type_synonym rmatch_result = "string list \<times> string"

fun rmatch :: "rx list \<Rightarrow> string \<Rightarrow> string \<Rightarrow> string list \<Rightarrow> rmatch_result option" where
  "rmatch [] s cur gs = Some (gs, s)"
| "rmatch (GOpen # r) s cur gs = rmatch r s [] gs"
| "rmatch (GClose # r) s cur gs = rmatch r s cur (gs @ [rev cur])"
| "rmatch (One c # r) [] cur gs = None"
| "rmatch (One c # r) (x # xs) cur gs =
     (if cmatch c x then rmatch r xs (x # cur) gs else None)"
| "rmatch (Star c # r) [] cur gs = rmatch r [] cur gs"
| "rmatch (Star c # r) (x # xs) cur gs =
     (if cmatch c x
      then (case rmatch (Star c # r) xs (x # cur) gs of
              Some res \<Rightarrow> Some res
            | None \<Rightarrow> rmatch r (x # xs) cur gs)
      else rmatch r (x # xs) cur gs)"
| "rmatch (LazyStar c # r) [] cur gs = rmatch r [] cur gs"
| "rmatch (LazyStar c # r) (x # xs) cur gs =
     (case rmatch r (x # xs) cur gs of
        Some res \<Rightarrow> Some res
      | None \<Rightarrow> if cmatch c x then rmatch (LazyStar c # r) xs (x # cur) gs else None)"

text \<open>\<open>re.match\<close> tries the start of the string only, \<open>re.search\<close> every
  position from the left. \<open>m.group(k)\<close> is the \<open>k\<close>-th group.\<close>

definition re_match :: "rx list \<Rightarrow> string \<Rightarrow> rmatch_result option" where
  "re_match p s = rmatch p s [] []"

fun re_search :: "rx list \<Rightarrow> string \<Rightarrow> rmatch_result option" where
  "re_search p [] = rmatch p [] [] []"
| "re_search p (x # xs) =
     (case rmatch p (x # xs) [] [] of Some res \<Rightarrow> Some res | None \<Rightarrow> re_search p xs)"

definition group :: "rmatch_result \<Rightarrow> nat \<Rightarrow> string" where
  "group m k = fst m ! (k - 1)"

text \<open>
  \<open>re.findall\<close>: the groups of the successive matches, each search starting
  where the last match ended. Every pattern of the module reads at least one
  character, so the unread input gets shorter; the search stops should it not.
\<close>

function re_findall :: "rx list \<Rightarrow> string \<Rightarrow> string list list" where
  "re_findall p s =
     (case re_search p s of
        None \<Rightarrow> []
      | Some (gs, rest) \<Rightarrow>
          if length rest < length s then gs # re_findall p rest else [gs])"
  by pat_completeness auto
termination
  by (relation "measure (\<lambda>(p, s). length s)") auto

declare re_findall.simps [simp del]

definition lit :: "string \<Rightarrow> rx list" where
  "lit s = map (\<lambda>c. One (Chr c)) s"

definition dq :: char where
  "dq = CHR 0x22"

text \<open>\<^verbatim>\<open>GET_LANGS_REGEX = 'data-lang=".*?" data-clang="(.*?)">(.*?)</a>'\<close> (used with \<open>re.S\<close>)\<close>

definition GET_LANGS_REGEX :: "rx list" where
  "GET_LANGS_REGEX =
    lit ''data-lang='' @ [One (Chr dq), LazyStar DotAll, One (Chr dq)]
      @ lit '' data-clang='' @ [One (Chr dq), GOpen, LazyStar DotAll, GClose, One (Chr dq)]
      @ lit ''>'' @ [GOpen, LazyStar DotAll, GClose] @ lit ''</a>''"

text \<open>\<^verbatim>\<open>CONFERENCES_REGEX = '<a[^>]*href="([^"]*)"[^>]*><div[^>]*><img[^>]*></div><span[^>]*>([A-Z][a-z]* \d{4})</span></a>'\<close> (used with \<open>re.S\<close>)\<close>

definition CONFERENCES_REGEX :: "rx list" where
  "CONFERENCES_REGEX =
    lit ''<a'' @ [Star (NotChr (CHR ''>''))] @ lit ''href=''
      @ [One (Chr dq), GOpen, Star (NotChr dq), GClose, One (Chr dq), Star (NotChr (CHR ''>''))]
      @ lit ''><div'' @ [Star (NotChr (CHR ''>''))] @ lit ''><img''
      @ [Star (NotChr (CHR ''>''))] @ lit ''></div><span'' @ [Star (NotChr (CHR ''>''))]
      @ lit ''>'' @ [GOpen, One Upper, Star Lower] @ lit '' '' @ replicate 4 (One Digit)
      @ [GClose] @ lit ''</span></a>''"

text \<open>\<^verbatim>\<open>CONFERENCE_GROUPS_REGEX = '<a[^>]*href="([^"]*)"[^>]*><div[^>]*><img[^>]*></div><span[^>]*>(\d{4}.\d{4})</span></a>'\<close> (used with \<open>re.S\<close>)\<close>

definition CONFERENCE_GROUPS_REGEX :: "rx list" where
  "CONFERENCE_GROUPS_REGEX =
    lit ''<a'' @ [Star (NotChr (CHR ''>''))] @ lit ''href=''
      @ [One (Chr dq), GOpen, Star (NotChr dq), GClose, One (Chr dq), Star (NotChr (CHR ''>''))]
      @ lit ''><div'' @ [Star (NotChr (CHR ''>''))] @ lit ''><img''
      @ [Star (NotChr (CHR ''>''))] @ lit ''></div><span'' @ [Star (NotChr (CHR ''>''))]
      @ lit ''>'' @ [GOpen] @ replicate 4 (One Digit) @ [One DotAll]
      @ replicate 4 (One Digit) @ [GClose] @ lit ''</span></a>''"

text \<open>\<^verbatim>\<open>CONFERENCE_GROUPS_RANGE_REGEX = '.*/(\d{4})(\d{4})\?lang=.*'\<close>\<close>

definition CONFERENCE_GROUPS_RANGE_REGEX :: "rx list" where
  "CONFERENCE_GROUPS_RANGE_REGEX =
    [Star Dot] @ lit ''/'' @ [GOpen] @ replicate 4 (One Digit) @ [GClose, GOpen]
      @ replicate 4 (One Digit) @ [GClose] @ lit ''?lang='' @ [Star Dot]"

text \<open>\<^verbatim>\<open>CONFERENCE_LINK_YEAR_MONTH_REGEX = '.*(\d{4})/(\d{2})\?lang=.*'\<close>\<close>

definition CONFERENCE_LINK_YEAR_MONTH_REGEX :: "rx list" where
  "CONFERENCE_LINK_YEAR_MONTH_REGEX =
    [Star Dot, GOpen] @ replicate 4 (One Digit) @ [GClose] @ lit ''/'' @ [GOpen]
      @ replicate 2 (One Digit) @ [GClose] @ lit ''?lang='' @ [Star Dot]"

text \<open>\<^verbatim>\<open>SCRIPT_BASE64_REGEX = '<script>window.__INITIAL_STATE__[^"]*"([^"]*)";</script>'\<close>\<close>

definition SCRIPT_BASE64_REGEX :: "rx list" where
  "SCRIPT_BASE64_REGEX =
    lit ''<script>window'' @ [One Dot] @ lit ''__INITIAL_STATE__''
      @ [Star (NotChr dq), One (Chr dq), GOpen, Star (NotChr dq), GClose, One (Chr dq)]
      @ lit '';</script>''"

text \<open>\<^verbatim>\<open>MP3_DOWNLOAD_REGEX = '<a[^>]*href="([^"]*)"[^>]*>This Page \(MP3\).*?</a>'\<close>\<close>

definition MP3_DOWNLOAD_REGEX :: "rx list" where
  "MP3_DOWNLOAD_REGEX =
    lit ''<a'' @ [Star (NotChr (CHR ''>''))] @ lit ''href=''
      @ [One (Chr dq), GOpen, Star (NotChr dq), GClose, One (Chr dq), Star (NotChr (CHR ''>''))]
      @ lit ''>This Page (MP3)'' @ [LazyStar Dot] @ lit ''</a>''"

text \<open>\<^verbatim>\<open>MP3_DOWNLOAD_FILENAME_REGEX = '.*/(.*\.mp3)\?lang=.*'\<close>\<close>

definition MP3_DOWNLOAD_FILENAME_REGEX :: "rx list" where
  "MP3_DOWNLOAD_FILENAME_REGEX =
    [Star Dot] @ lit ''/'' @ [GOpen, Star Dot] @ lit ''.mp3'' @ [GClose] @ lit ''?lang=''
      @ [Star Dot]"

text \<open>\<^verbatim>\<open>MP3_MEDIAURL_REGEX = '{"mediaUrl":"([^"]*)","variant":"audio"}'\<close>\<close>

definition MP3_MEDIAURL_REGEX :: "rx list" where
  "MP3_MEDIAURL_REGEX =
    lit ''{'' @ [One (Chr dq)] @ lit ''mediaUrl'' @ [One (Chr dq)] @ lit '':''
      @ [One (Chr dq), GOpen, Star (NotChr dq), GClose, One (Chr dq)] @ lit '',''
      @ [One (Chr dq)] @ lit ''variant'' @ [One (Chr dq)] @ lit '':'' @ [One (Chr dq)]
      @ lit ''audio'' @ [One (Chr dq)] @ lit ''}''"

text \<open>\<^verbatim>\<open>MP3_MEDIAURL_FILENAME_REGEX = '.*/(.*\.mp3)'\<close>\<close>

definition MP3_MEDIAURL_FILENAME_REGEX :: "rx list" where
  "MP3_MEDIAURL_FILENAME_REGEX =
    [Star Dot] @ lit ''/'' @ [GOpen, Star Dot] @ lit ''.mp3'' @ [GClose]"

text \<open>\<^verbatim>\<open>SESSIONS_REGEX = '<a[^>]*href="([^"]*)"[^>]*><div[^>]*><p><span[^>]*>([^<]*)</span></p></div></a><ul[^>]*>(.*?)</ul>'\<close> (used with \<open>re.S\<close>)\<close>

definition SESSIONS_REGEX :: "rx list" where
  "SESSIONS_REGEX =
    lit ''<a'' @ [Star (NotChr (CHR ''>''))] @ lit ''href=''
      @ [One (Chr dq), GOpen, Star (NotChr dq), GClose, One (Chr dq), Star (NotChr (CHR ''>''))]
      @ lit ''><div'' @ [Star (NotChr (CHR ''>''))] @ lit ''><p><span''
      @ [Star (NotChr (CHR ''>''))] @ lit ''>'' @ [GOpen, Star (NotChr (CHR ''<'')), GClose]
      @ lit ''</span></p></div></a><ul'' @ [Star (NotChr (CHR ''>''))] @ lit ''>''
      @ [GOpen, LazyStar DotAll, GClose] @ lit ''</ul>''"

text \<open>\<^verbatim>\<open>SESSION_TALKS_REGEX = '<a[^>]*href="([^"]*)"[^>]*><div[^>]*><p><span[^>]*>([^<]*)</span></p><p[^>]*>([^<]*)</p></div></a>'\<close> (used with \<open>re.S\<close>)\<close>

definition SESSION_TALKS_REGEX :: "rx list" where
  "SESSION_TALKS_REGEX =
    lit ''<a'' @ [Star (NotChr (CHR ''>''))] @ lit ''href=''
      @ [One (Chr dq), GOpen, Star (NotChr dq), GClose, One (Chr dq), Star (NotChr (CHR ''>''))]
      @ lit ''><div'' @ [Star (NotChr (CHR ''>''))] @ lit ''><p><span''
      @ [Star (NotChr (CHR ''>''))] @ lit ''>'' @ [GOpen, Star (NotChr (CHR ''<'')), GClose]
      @ lit ''</span></p><p'' @ [Star (NotChr (CHR ''>''))] @ lit ''>''
      @ [GOpen, Star (NotChr (CHR ''<'')), GClose] @ lit ''</p></div></a>''"

text \<open>\<^verbatim>\<open>TOPICS_REGEX = '<a[^>]*href="([^"]*)"[^>]*><div[^>]*><div[^>]*><div[^>]*><h4[^>]*>([^<]*)</h4></div></div></div><hr[^>]*></a>'\<close> (used with \<open>re.S\<close>)\<close>

definition TOPICS_REGEX :: "rx list" where
  "TOPICS_REGEX =
    lit ''<a'' @ [Star (NotChr (CHR ''>''))] @ lit ''href=''
      @ [One (Chr dq), GOpen, Star (NotChr dq), GClose, One (Chr dq), Star (NotChr (CHR ''>''))]
      @ lit ''><div'' @ [Star (NotChr (CHR ''>''))] @ lit ''><div''
      @ [Star (NotChr (CHR ''>''))] @ lit ''><div'' @ [Star (NotChr (CHR ''>''))]
      @ lit ''><h4'' @ [Star (NotChr (CHR ''>''))] @ lit ''>''
      @ [GOpen, Star (NotChr (CHR ''<'')), GClose] @ lit ''</h4></div></div></div><hr''
      @ [Star (NotChr (CHR ''>''))] @ lit ''></a>''"

text \<open>\<^verbatim>\<open>TOPIC_TALKS_REGEX = '<a href="([^"]*)"[^>]*><div[^>]*><div[^>]*><div[^>]*><div[^>]*><h6[^>]*>[^>]*><h6[^>]*>([^<]*)</h6></div></div><div[^>]*><h4[^>]*>([^<]*)</h4>'\<close> (used with \<open>re.S\<close>)\<close>

definition TOPIC_TALKS_REGEX :: "rx list" where
  "TOPIC_TALKS_REGEX =
    lit ''<a href=''
      @ [One (Chr dq), GOpen, Star (NotChr dq), GClose, One (Chr dq), Star (NotChr (CHR ''>''))]
      @ lit ''><div'' @ [Star (NotChr (CHR ''>''))] @ lit ''><div''
      @ [Star (NotChr (CHR ''>''))] @ lit ''><div'' @ [Star (NotChr (CHR ''>''))]
      @ lit ''><div'' @ [Star (NotChr (CHR ''>''))] @ lit ''><h6''
      @ [Star (NotChr (CHR ''>''))] @ lit ''>'' @ [Star (NotChr (CHR ''>''))] @ lit ''><h6''
      @ [Star (NotChr (CHR ''>''))] @ lit ''>'' @ [GOpen, Star (NotChr (CHR ''<'')), GClose]
      @ lit ''</h6></div></div><div'' @ [Star (NotChr (CHR ''>''))] @ lit ''><h4''
      @ [Star (NotChr (CHR ''>''))] @ lit ''>'' @ [GOpen, Star (NotChr (CHR ''<'')), GClose]
      @ lit ''</h4>''"

subsection \<open>Records of the crawl\<close>

text \<open>The six \<open>namedtuple\<close> types of the module.\<close>

datatype Conference =
  Conference (conf_link: string) (conf_title: string) (conf_year: int) (conf_month: int)

datatype Session =
  Session (sess_conference: Conference) (sess_link: string) (sess_title: string) (sess_number: int)

datatype Talk =
  Talk (talk_session: Session) (talk_link: string) (talk_title: string) (talk_speaker: string)
    (talk_topics: "string list")

datatype Audio = Audio (audio_link: string) (audio_file: string)

datatype Topic = Topic (topic_link: string) (topic_topic: string)

datatype TalkByTopic =
  TalkByTopic (tbt_link: string) (tbt_speaker: string) (tbt_title: string) (tbt_topic: string)

text \<open>Exceptions that the module does not catch.\<close>

datatype exn = ValueError | BinasciiError | MutagenError | KeyError

subsection \<open>Audio resolution\<close>

text \<open>
  \<open>base64.b64decode(s)\<close> for a \<open>str\<close>: the string must be ASCII
  (\<open>ValueError\<close> otherwise); \<open>binascii.a2b_base64\<close> then skips every character
  outside the alphabet, stops at a complete padding, and raises
  \<open>binascii.Error\<close> when the data ends inside a group of four. The state is the
  position in the group, the bits left over, and the padding seen.
\<close>

definition b64_value :: "char \<Rightarrow> nat option" where
  "b64_value c =
     (let n = (of_char c :: nat) in
        if 65 \<le> n \<and> n \<le> 90 then Some (n - 65)
        else if 97 \<le> n \<and> n \<le> 122 then Some (n - 97 + 26)
        else if 48 \<le> n \<and> n \<le> 57 then Some (n - 48 + 52)
        else if c = CHR ''+'' then Some 62
        else if c = CHR ''/'' then Some 63
        else None)"

fun a2b_base64 :: "string \<Rightarrow> nat \<Rightarrow> nat \<Rightarrow> nat \<Rightarrow> string \<Rightarrow> string option" where
  "a2b_base64 [] quad_pos leftchar pads out = (if quad_pos \<noteq> 0 then None else Some (rev out))"
| "a2b_base64 (c # cs) quad_pos leftchar pads out =
     (if c = CHR ''='' then
        (if quad_pos \<ge> 2
         then (if quad_pos + (pads + 1) \<ge> 4 then Some (rev out)
               else a2b_base64 cs quad_pos leftchar (pads + 1) out)
         else a2b_base64 cs quad_pos leftchar pads out)
      else
        (case b64_value c of
           None \<Rightarrow> a2b_base64 cs quad_pos leftchar pads out
         | Some v \<Rightarrow>
             if quad_pos = 0 then a2b_base64 cs 1 v 0 out
             else if quad_pos = 1
               then a2b_base64 cs 2 (v mod 16) 0 (char_of (leftchar * 4 + v div 16) # out)
             else if quad_pos = 2
               then a2b_base64 cs 3 (v mod 4) 0 (char_of (leftchar * 16 + v div 4) # out)
             else a2b_base64 cs 0 0 0 (char_of (leftchar * 64 + v) # out)))"

definition b64decode :: "string \<Rightarrow> exn + string" where
  "b64decode s =
     (if \<exists>c \<in> set s. (of_char c :: nat) > 127 then Inl ValueError
      else case a2b_base64 s 0 0 0 [] of None \<Rightarrow> Inl BinasciiError | Some bytes \<Rightarrow> Inr bytes)"

text \<open>
  \<open>str(b)\<close> for a \<open>bytes\<close> value is its \<open>repr\<close>: \<open>b'...'\<close>, in double quotes
  when the bytes hold a single quote and no double quote; the quote and the
  backslash are escaped, tab, newline and carriage return are written
  \<open>\t\<close>, \<open>\n\<close>, \<open>\r\<close>, every other byte outside printable ASCII as
  \<open>\xhh\<close>.
\<close>

definition hex_digit :: "nat \<Rightarrow> char" where
  "hex_digit n = ''0123456789abcdef'' ! n"

definition bytes_repr_char :: "char \<Rightarrow> char \<Rightarrow> string" where
  "bytes_repr_char q c =
     (let n = (of_char c :: nat) in
        if c = q \<or> c = CHR 0x5C then [CHR 0x5C, c]
        else if n = 9 then [CHR 0x5C, CHR ''t'']
        else if n = 10 then [CHR 0x5C, CHR ''n'']
        else if n = 13 then [CHR 0x5C, CHR ''r'']
        else if n < 32 \<or> n \<ge> 127 then [CHR 0x5C, CHR ''x'', hex_digit (n div 16), hex_digit (n mod 16)]
        else [c])"

definition bytes_repr :: "string \<Rightarrow> string" where
  "bytes_repr bytes =
     (let q = (if CHR 0x27 \<in> set bytes \<and> dq \<notin> set bytes then dq else CHR 0x27)
      in [CHR ''b'', q] @ concat (map (bytes_repr_char q) bytes) @ [q])"

text \<open>
  \<^verbatim>\<open>
  def get_audio(args, talk):
      link_html = get_html(args, f'{LDS_ORG_URL}{decode(talk.link)}')
      mp3_link = re.search(MP3_DOWNLOAD_REGEX, link_html)
      # In April 2022 the MP3 link became buried in base64 encoded script section
      match = re.search(SCRIPT_BASE64_REGEX, link_html)
      if mp3_link:
          mp3_file = re.match(MP3_DOWNLOAD_FILENAME_REGEX, mp3_link.group(1))
      elif not mp3_link and not match:
          return
      elif not mp3_link and match:
          script_data = str(base64.b64decode(match.group(1)))
          mp3_link = re.search(MP3_MEDIAURL_REGEX, script_data)
          if not mp3_link:
              return
          mp3_file = re.match(MP3_MEDIAURL_FILENAME_REGEX, mp3_link.group(1))
      if not mp3_file:
          return
      return Audio(mp3_link.group(1), mp3_file.group(1))
  \<close>
  \<open>resolve_audio\<close> is the function from its second line on, applied to the
  talk document; \<open>get_audio\<close> below fetches the document and calls it.
\<close>

definition resolve_audio :: "string \<Rightarrow> exn + Audio option" where
  "resolve_audio link_html =
     (let mp3_link = re_search MP3_DOWNLOAD_REGEX link_html;
          match = re_search SCRIPT_BASE64_REGEX link_html
      in case mp3_link of
           Some m \<Rightarrow>
             (case re_match MP3_DOWNLOAD_FILENAME_REGEX (group m 1) of
                None \<Rightarrow> Inr None
              | Some mp3_file \<Rightarrow> Inr (Some (Audio (group m 1) (group mp3_file 1))))
         | None \<Rightarrow>
             (case match of
                None \<Rightarrow> Inr None
              | Some b \<Rightarrow>
                  (case b64decode (group b 1) of
                     Inl e \<Rightarrow> Inl e
                   | Inr bytes \<Rightarrow>
                       (let script_data = bytes_repr bytes
                        in case re_search MP3_MEDIAURL_REGEX script_data of
                             None \<Rightarrow> Inr None
                           | Some m \<Rightarrow>
                               (case re_match MP3_MEDIAURL_FILENAME_REGEX (group m 1) of
                                  None \<Rightarrow> Inr None
                                | Some mp3_file \<Rightarrow>
                                    Inr (Some (Audio (group m 1) (group mp3_file 1))))))))"


subsection \<open>The world: cache, output tree, requests, the progress window\<close>

text \<open>
  The state the module works on: the files of the cache directory and of the
  output tree (path to content), the log of cache reads, cache writes and
  network requests in the order they happen, and the number of times the
  progress window has been polled for events.
\<close>

datatype event = CacheRead string | CacheWrite string | NetRequest string

record world =
  cache :: "string \<rightharpoonup> string"
  files :: "string \<rightharpoonup> string"
  events :: "event list"
  polls :: nat

text \<open>What a call that may end the process or raise comes back with.\<close>

datatype 'a outcome = Return 'a | SysExit int | Raised exn

text \<open>
  The progress bar. Only \<open>GuiTqdm\<close> has the attribute \<open>running\<close>;
  \<open>set_description_str\<close> and \<open>update\<close> call \<open>_check_events\<close>, which reads
  one event of the window and clears \<open>running\<close> when it is Cancel (or the
  window was closed). \<open>cancel_poll L = Some k\<close> says that the \<open>k\<close>-th read,
  counted from 0 over the whole run, is the one that sees it. The other two
  bars read no events. Leaving the \<open>with\<close> block calls \<open>__exit__\<close>, which for
  \<open>GuiTqdm\<close> ends the process with status 2 when \<open>running\<close> is cleared.
\<close>

definition check_events :: "lib \<Rightarrow> bool \<times> world \<Rightarrow> bool \<times> world" where
  "check_events L rw =
     (case rw of (running, w) \<Rightarrow>
        if tqdm L = GuiTqdm
        then (if cancel_poll L = Some (polls w) then False else running,
              w\<lparr>polls := polls w + 1\<rparr>)
        else (running, w))"

definition stop :: "lib \<Rightarrow> bool \<Rightarrow> bool" where
  "stop L running = (tqdm L = GuiTqdm \<and> \<not> running)"

definition bar_exit :: "lib \<Rightarrow> bool \<Rightarrow> 'a outcome \<Rightarrow> 'a outcome" where
  "bar_exit L running res = (if stop L running then SysExit 2 else res)"

subsection \<open>Fetching through the cache\<close>

definition LDS_ORG_URL :: string where
  "LDS_ORG_URL = ''https://www.churchofjesuschrist.org''"

definition ALL_CONFERENCES_URL :: string where
  "ALL_CONFERENCES_URL = LDS_ORG_URL @ ''/study/general-conference''"

definition ALL_TOPICS_URL :: string where
  "ALL_TOPICS_URL = LDS_ORG_URL @ ''/study/general-conference/topics''"

definition decode :: "lib \<Rightarrow> string \<Rightarrow> string" where
  "decode L text = unquote_plus L text"

definition get_cache_filename :: "args \<Rightarrow> string \<Rightarrow> string" where
  "get_cache_filename a url = cache_home a @ ''/'' @ lang a @ ''/'' @ url"

text \<open>
  \<^verbatim>\<open>
  def get_from_cache(args, url):
      url = html_tools.unescape(url)
      url = quote_plus(url)
      path = get_cache_filename(args, url)
      os.makedirs(os.path.dirname(path), exist_ok=True)
      if os.path.isfile(path):
          with open(path, 'r', encoding="utf-8") as f:
              return f.read()
      return None

  def add_to_cache(args, html, url):
      url = html_tools.unescape(url).encode()
      url = quote_plus(url)
      path = get_cache_filename(args, url)
      os.makedirs(os.path.dirname(path), exist_ok=True)
      with open(path, 'w', encoding="utf-8") as f:
          f.write(html)
  \<close>
\<close>

definition cache_path :: "lib \<Rightarrow> args \<Rightarrow> string \<Rightarrow> string" where
  "cache_path L a url = get_cache_filename a (quote_plus L (html_unescape L url))"

definition get_from_cache :: "lib \<Rightarrow> args \<Rightarrow> string \<Rightarrow> world \<Rightarrow> string option \<times> world" where
  "get_from_cache L a url w =
     (let path = cache_path L a url
      in (cache w path, w\<lparr>events := events w @ [CacheRead path]\<rparr>))"

definition add_to_cache :: "lib \<Rightarrow> args \<Rightarrow> string \<Rightarrow> string \<Rightarrow> world \<Rightarrow> world" where
  "add_to_cache L a html url w =
     (let path = cache_path L a url
      in w\<lparr>cache := (cache w)(path \<mapsto> html), events := events w @ [CacheWrite path]\<rparr>)"

text \<open>
  \<^verbatim>\<open>
  def get_html(args, url, nocache=False):
      url = html_tools.unescape(url)
      req = urllib.request.Request(url)
      add_headers(req)
      if not nocache:
          cached = get_from_cache(args, url)
          if cached:
              return cached
      try:
          with urllib.request.urlopen(req) as response:
              data = response.read()
              decompressed_data = zlib.decompress(data, 16 + zlib.MAX_WBITS)
              html = decompressed_data.decode("utf-8")
              if not nocache:
                  add_to_cache(args, html, url)
              return html
      except Exception as ex:
          sys.stderr.write(f'Problem with http request ({url}: {ex}')
          return ''
  \<close>
  A cached text that is empty counts as a miss. Reading the header file and
  the output of \<open>-verbose\<close> are left out.
\<close>

definition fetch :: "lib \<Rightarrow> args \<Rightarrow> string \<Rightarrow> bool \<Rightarrow> world \<Rightarrow> string \<times> world" where
  "fetch L a url nocache w =
     (let w = w\<lparr>events := events w @ [NetRequest url]\<rparr>
      in case urlopen L url of
           None \<Rightarrow> ([], w)
         | Some data \<Rightarrow>
             (case decompress L data of
                None \<Rightarrow> ([], w)
              | Some html \<Rightarrow> (html, if \<not> nocache then add_to_cache L a html url w else w)))"

definition get_html :: "lib \<Rightarrow> args \<Rightarrow> string \<Rightarrow> bool \<Rightarrow> world \<Rightarrow> string \<times> world" where
  "get_html L a url nocache w =
     (let url = html_unescape L url
      in if \<not> nocache
         then (case get_from_cache L a url w of
                 (cached, w') \<Rightarrow>
                   (case cached of
                      None \<Rightarrow> fetch L a url nocache w'
                    | Some text \<Rightarrow> if text \<noteq> [] then (text, w') else fetch L a url nocache w'))
         else fetch L a url nocache w)"

subsection \<open>Conference discovery\<close>

text \<open>\<open>int(s)\<close> for a string of decimal digits.\<close>

definition int_of_digits :: "string \<Rightarrow> int" where
  "int_of_digits s = foldl (\<lambda>n c. 10 * n + (int (of_char c) - 48)) 0 s"

text \<open>
  \<^verbatim>\<open>
  def get_conferences(args, conferences_html):
      conferences = re.findall(CONFERENCES_REGEX, conferences_html, re.S)
      result = []
      for conference in conferences:
          match = re.match(CONFERENCE_LINK_YEAR_MONTH_REGEX, conference[0])
          if not match:
              continue
          year = int(match.group(1))
          if year < args.start or year > args.end:
              continue
          month = int(match.group(2))
          result.append(Conference(conference[0], conference[1], year, month))
      return result
  \<close>
\<close>

definition conference_of :: "args \<Rightarrow> string list \<Rightarrow> Conference option" where
  "conference_of a conference =
     (case re_match CONFERENCE_LINK_YEAR_MONTH_REGEX (conference ! 0) of
        None \<Rightarrow> None
      | Some m \<Rightarrow>
          (let year = int_of_digits (group m 1)
           in if year < start a \<or> year > end_year a then None
              else Some (Conference (conference ! 0) (conference ! 1) year
                           (int_of_digits (group m 2)))))"

definition get_conferences :: "args \<Rightarrow> string \<Rightarrow> Conference list" where
  "get_conferences a conferences_html =
     List.map_filter (conference_of a) (re_findall CONFERENCES_REGEX conferences_html)"

text \<open>
  \<^verbatim>\<open>
  def get_range_conferences(args, conferences_html):
      conference_groups = re.findall(CONFERENCE_GROUPS_REGEX, conferences_html, re.S)
      result = []
      for conference_group in conference_groups:
          match = re.match(CONFERENCE_GROUPS_RANGE_REGEX, conference_group[0])
          if not match:
              continue
          end_year = int(match.group(2))
          start_year = int(match.group(1))
          if end_year < args.start or start_year > args.end:
              continue
          conference_group_html = get_html(args, f'{LDS_ORG_URL}{decode(conference_group[0])}')
          if conference_group_html:
              result.extend(get_conferences(args, conference_group_html))
      return result
  \<close>
\<close>

fun get_range_conferences_loop ::
  "lib \<Rightarrow> args \<Rightarrow> string list list \<Rightarrow> Conference list \<Rightarrow> world \<Rightarrow> Conference list \<times> world" where
  "get_range_conferences_loop L a [] result w = (result, w)"
| "get_range_conferences_loop L a (conference_group # rest) result w =
     (case re_match CONFERENCE_GROUPS_RANGE_REGEX (conference_group ! 0) of
        None \<Rightarrow> get_range_conferences_loop L a rest result w
      | Some m \<Rightarrow>
          (let end_y = int_of_digits (group m 2);
               start_y = int_of_digits (group m 1)
           in if end_y < start a \<or> start_y > end_year a
              then get_range_conferences_loop L a rest result w
              else
                (case get_html L a (LDS_ORG_URL @ decode L (conference_group ! 0)) False w of
                   (conference_group_html, w') \<Rightarrow>
                     get_range_conferences_loop L a rest
                       (if conference_group_html \<noteq> []
                        then result @ get_conferences a conference_group_html else result) w')))"

definition get_range_conferences :: "lib \<Rightarrow> args \<Rightarrow> string \<Rightarrow> world \<Rightarrow> Conference list \<times> world" where
  "get_range_conferences L a conferences_html w =
     get_range_conferences_loop L a (re_findall CONFERENCE_GROUPS_REGEX conferences_html) [] w"

text \<open>
  \<^verbatim>\<open>
  def get_all_conferences(args):
      all_conferences_html = get_html(args, f'{ALL_CONFERENCES_URL}?lang={args.lang}',
                                      nocache=args.nocleanup)
      all_conferences = get_conferences(args, all_conferences_html)
      all_conferences.extend(get_range_conferences(args, all_conferences_html))
      # List is newest to oldest, reverse it before returning list
      all_conferences.reverse()
      return all_conferences
  \<close>
\<close>

definition get_all_conferences :: "lib \<Rightarrow> args \<Rightarrow> world \<Rightarrow> Conference list \<times> world" where
  "get_all_conferences L a w =
     (case get_html L a (ALL_CONFERENCES_URL @ ''?lang='' @ lang a) (nocleanup a) w of
        (all_conferences_html, w1) \<Rightarrow>
          (case get_range_conferences L a all_conferences_html w1 of
             (range_conferences, w2) \<Rightarrow>
               (rev (get_conferences a all_conferences_html @ range_conferences), w2)))"

text \<open>
  \<^verbatim>\<open>
  def get_all_languages_map(args):
      all_languages_html = get_html(args, f'{LDS_ORG_URL}/languages', nocache=args.nocleanup)
      all_languages_list = re.findall(GET_LANGS_REGEX, all_languages_html, re.S)
      return dict(all_languages_list)
  \<close>
\<close>

definition get_all_languages_map :: "lib \<Rightarrow> args \<Rightarrow> world \<Rightarrow> (string \<rightharpoonup> string) \<times> world" where
  "get_all_languages_map L a w =
     (case get_html L a (LDS_ORG_URL @ ''/languages'') (nocleanup a) w of
        (all_languages_html, w') \<Rightarrow>
          (fold (\<lambda>kv m. m(kv ! 0 \<mapsto> kv ! 1)) (re_findall GET_LANGS_REGEX all_languages_html)
             Map.empty, w'))"

subsection \<open>Topics\<close>

text \<open>
  \<^verbatim>\<open>
  def get_all_topics(args):
      all_topics_html = get_html(args, f'{ALL_TOPICS_URL}?lang={args.lang}', nocache=args.nocleanup)
      return [Topic(topic[0], topic[1]) for topic in re.findall(TOPICS_REGEX, all_topics_html, re.S)]

  def get_all_talks_by_topic(args):
      all_topics = get_all_topics(args)
      topic_talks = []
      with tqdm(total=len(all_topics), unit="topics") as progress_bar:
          progress_bar.write("Retrieving all topics")
          for topic in all_topics:
              progress_bar.set_description_str(topic.topic)
              topic_html = get_html(args, f'{LDS_ORG_URL}{decode(topic.link)}', nocache=args.nocleanup)
              topic_talks.extend([TalkByTopic(tt[0], tt[1], clean_title(tt[2]), topic.topic)
                                  for tt in re.findall(TOPIC_TALKS_REGEX, topic_html, re.S)])
              progress_bar.update(1)
              if hasattr(progress_bar, 'running') and not progress_bar.running:
                  break
      return topic_talks
  \<close>
\<close>

definition get_all_topics :: "lib \<Rightarrow> args \<Rightarrow> world \<Rightarrow> Topic list \<times> world" where
  "get_all_topics L a w =
     (case get_html L a (ALL_TOPICS_URL @ ''?lang='' @ lang a) (nocleanup a) w of
        (all_topics_html, w') \<Rightarrow>
          (map (\<lambda>topic. Topic (topic ! 0) (topic ! 1)) (re_findall TOPICS_REGEX all_topics_html), w'))"

fun topics_loop ::
  "lib \<Rightarrow> args \<Rightarrow> Topic list \<Rightarrow> TalkByTopic list \<Rightarrow> bool \<times> world
     \<Rightarrow> TalkByTopic list \<times> bool \<times> world" where
  "topics_loop L a [] topic_talks rw = (topic_talks, rw)"
| "topics_loop L a (topic # rest) topic_talks rw =
     (case check_events L rw of
        (running, w) \<Rightarrow>
          (case get_html L a (LDS_ORG_URL @ decode L (topic_link topic)) (nocleanup a) w of
             (topic_html, w') \<Rightarrow>
               (let topic_talks = topic_talks @
                      map (\<lambda>tt. TalkByTopic (tt ! 0) (tt ! 1) (clean_title L (tt ! 2)) (topic_topic topic))
                        (re_findall TOPIC_TALKS_REGEX topic_html)
                in case check_events L (running, w') of
                     (running, w'') \<Rightarrow>
                       if stop L running then (topic_talks, running, w'')
                       else topics_loop L a rest topic_talks (running, w''))))"

definition get_all_talks_by_topic :: "lib \<Rightarrow> args \<Rightarrow> world \<Rightarrow> TalkByTopic list outcome \<times> world" where
  "get_all_talks_by_topic L a w =
     (case get_all_topics L a w of
        (all_topics, w1) \<Rightarrow>
          (case topics_loop L a all_topics [] (True, w1) of
             (topic_talks, running, w2) \<Rightarrow> (bar_exit L running (Return topic_talks), w2)))"

subsection \<open>Sessions and talks\<close>

text \<open>
  \<^verbatim>\<open>
  def get_all_talks(args):
      all_conferences = get_all_conferences(args)
      if args.noplaylists:
          all_talks_by_topic = []
      else:
          all_talks_by_topic = get_all_talks_by_topic(args)
      all_talks = []
      with tqdm(total=len(all_conferences), unit="conferences") as progress_bar:
          for conference in all_conferences:
              conference_html = get_html(args, f'{LDS_ORG_URL}{decode(conference.link)}',
                                         nocache=args.nocleanup)
              sessions = re.findall(SESSIONS_REGEX, conference_html, re.S)
              for num, session_info in enumerate(sessions, start=1):
                  progress_bar.set_description_str(f'{conference.title}-{session_info[1]}', refresh=True)
                  session = Session(conference, session_info[0], session_info[1], num*10)
                  talks = re.findall(SESSION_TALKS_REGEX, session_info[2], re.S)
                  for talk_info in talks:
                      title = clean_title(talk_info[1])
                      speaker = talk_info[2]
                      topics = [tbt.topic for tbt in all_talks_by_topic
                                if tbt.title == title and tbt.speaker == speaker]
                      # If talk title says this is sustaining or church audit report, skip it
                      if (-1 == title.find("Sustaining of")) and (not title.startswith("Church Auditing")):
                          all_talks.append(Talk(session, talk_info[0], title, speaker, topics))
                      if hasattr(progress_bar, 'running') and not progress_bar.running:
                          break
                  if hasattr(progress_bar, 'running') and not progress_bar.running:
                      break
              progress_bar.update(1)
              if hasattr(progress_bar, 'running') and not progress_bar.running:
                  break
      return all_talks
  \<close>
\<close>

fun startswith :: "string \<Rightarrow> string \<Rightarrow> bool" where
  "startswith s [] = True"
| "startswith [] (p # ps) = False"
| "startswith (c # cs) (p # ps) = (c = p \<and> startswith cs ps)"

fun contains :: "string \<Rightarrow> string \<Rightarrow> bool" where
  "contains [] sub = (sub = [])"
| "contains (c # cs) sub = (startswith (c # cs) sub \<or> contains cs sub)"

text \<open>The test both \<open>get_all_talks\<close> and \<open>update_playlists\<close> make on a title:
  \<open>title.find("Sustaining of") != -1 or title.startswith("Church Auditing")\<close>.\<close>

definition procedural :: "string \<Rightarrow> bool" where
  "procedural title = (contains title ''Sustaining of'' \<or> startswith title ''Church Auditing'')"

fun talks_loop ::
  "lib \<Rightarrow> TalkByTopic list \<Rightarrow> Session \<Rightarrow> string list list \<Rightarrow> bool \<Rightarrow> Talk list \<Rightarrow> Talk list" where
  "talks_loop L all_talks_by_topic session [] running all_talks = all_talks"
| "talks_loop L all_talks_by_topic session (talk_info # rest) running all_talks =
     (let title = clean_title L (talk_info ! 1);
          speaker = talk_info ! 2;
          topics = map tbt_topic
                     (filter (\<lambda>tbt. tbt_title tbt = title \<and> tbt_speaker tbt = speaker)
                        all_talks_by_topic);
          all_talks = (if \<not> procedural title
                       then all_talks @ [Talk session (talk_info ! 0) title speaker topics]
                       else all_talks)
      in if stop L running then all_talks
         else talks_loop L all_talks_by_topic session rest running all_talks)"

fun sessions_loop ::
  "lib \<Rightarrow> TalkByTopic list \<Rightarrow> Conference \<Rightarrow> int \<Rightarrow> string list list \<Rightarrow> Talk list
     \<Rightarrow> bool \<times> world \<Rightarrow> Talk list \<times> bool \<times> world" where
  "sessions_loop L all_talks_by_topic conference num [] all_talks rw = (all_talks, rw)"
| "sessions_loop L all_talks_by_topic conference num (session_info # rest) all_talks rw =
     (case check_events L rw of
        (running, w) \<Rightarrow>
          (let session = Session conference (session_info ! 0) (session_info ! 1) (num * 10);
               talks = re_findall SESSION_TALKS_REGEX (session_info ! 2);
               all_talks = talks_loop L all_talks_by_topic session talks running all_talks
           in if stop L running then (all_talks, running, w)
              else sessions_loop L all_talks_by_topic conference (num + 1) rest all_talks
                     (running, w)))"

fun conferences_loop ::
  "lib \<Rightarrow> args \<Rightarrow> TalkByTopic list \<Rightarrow> Conference list \<Rightarrow> Talk list
     \<Rightarrow> bool \<times> world \<Rightarrow> Talk list \<times> bool \<times> world" where
  "conferences_loop L a all_talks_by_topic [] all_talks rw = (all_talks, rw)"
| "conferences_loop L a all_talks_by_topic (conference # rest) all_talks rw =
     (case rw of
        (running, w) \<Rightarrow>
          (case get_html L a (LDS_ORG_URL @ decode L (conf_link conference)) (nocleanup a) w of
             (conference_html, w') \<Rightarrow>
               (case sessions_loop L all_talks_by_topic conference 1
                       (re_findall SESSIONS_REGEX conference_html) all_talks (running, w') of
                  (all_talks, rw') \<Rightarrow>
                    (case check_events L rw' of
                       (running, w'') \<Rightarrow>
                         if stop L running then (all_talks, running, w'')
                         else conferences_loop L a all_talks_by_topic rest all_talks
                                (running, w'')))))"

definition get_all_talks :: "lib \<Rightarrow> args \<Rightarrow> world \<Rightarrow> Talk list outcome \<times> world" where
  "get_all_talks L a w =
     (case get_all_conferences L a w of
        (all_conferences, w1) \<Rightarrow>
          (case (if noplaylists a then (Return [], w1) else get_all_talks_by_topic L a w1) of
             (Return all_talks_by_topic, w2) \<Rightarrow>
               (case conferences_loop L a all_talks_by_topic all_conferences [] (True, w2) of
                  (all_talks, running, w3) \<Rightarrow> (bar_exit L running (Return all_talks), w3))
           | (SysExit n, w2) \<Rightarrow> (SysExit n, w2)
           | (Raised e, w2) \<Rightarrow> (Raised e, w2)))"

subsection \<open>Playlist aggregation\<close>

text \<open>
  The dictionary \<open>playlists\<close> keeps its keys in insertion order, and
  \<open>write_playlists\<close> walks it in that order: it is an association list.
  \<^verbatim>\<open>
  def create_playlists(args, all_talks):
      playlists = dict()
      for talk in all_talks:
          ...
          playlists.setdefault(f'Conferences/GC-All', [])
          playlists.setdefault(f'Speakers/GC-S-{talk.speaker}', [])
          for topic in talk.topics:
              playlists.setdefault(f'Topics/GC-T-{topic}', [])
      return playlists
  \<close>
\<close>

type_synonym playlists = "(string \<times> playlist_entry list) list"

definition setdefault :: "string \<Rightarrow> playlists \<Rightarrow> playlists" where
  "setdefault key playlists =
     (if key \<in> fst ` set playlists then playlists else playlists @ [(key, [])])"

definition create_playlists :: "args \<Rightarrow> Talk list \<Rightarrow> playlists" where
  "create_playlists a all_talks =
     fold (\<lambda>talk playlists.
             fold (\<lambda>topic. setdefault (''Topics/GC-T-'' @ topic)) (talk_topics talk)
               (setdefault (''Speakers/GC-S-'' @ talk_speaker talk)
                  (setdefault ''Conferences/GC-All'' playlists)))
       all_talks []"

definition get_year_path :: "args \<Rightarrow> Conference \<Rightarrow> string" where
  "get_year_path a conference = str_int (conf_year conference)"

definition get_month_path :: "args \<Rightarrow> Conference \<Rightarrow> string" where
  "get_month_path a conference = (if 4 = conf_month conference then ''April'' else ''October'')"

definition get_session_path :: "args \<Rightarrow> Session \<Rightarrow> bool \<Rightarrow> string" where
  "get_session_path a session nonumbers' =
     (if nonumbers a \<or> nonumbers' then sess_title session
      else str_int (sess_number session) @ ''-'' @ sess_title session)"

definition get_relative_path :: "args \<Rightarrow> Session \<Rightarrow> string" where
  "get_relative_path a session =
     ''MP3/'' @ get_year_path a (sess_conference session) @ ''/''
       @ get_month_path a (sess_conference session) @ ''/'' @ get_session_path a session False"

definition audio_file_path :: "args \<Rightarrow> Talk \<Rightarrow> Audio \<Rightarrow> string" where
  "audio_file_path a talk audio =
     get_output_dir a @ ''/'' @ get_relative_path a (talk_session talk) @ ''/'' @ audio_file audio"

text \<open>
  \<open>playlists[key]\<close> raises \<open>KeyError\<close> for a key that is not there:
  \<open>modify_playlist\<close> returns \<open>None\<close> then.
  \<^verbatim>\<open>
  def update_playlists(args, playlists, talk, audio):
      ...
      relative_path = get_relative_path(args, talk.session)
      duration = MP3(f'{get_output_dir(args)}/{relative_path}/{audio.file}').info.length
      playlists[f'Conferences/GC-All'].append({'duration' : duration,
          'path' : f'../{relative_path}/{audio.file}', 'title' : talk.title,
          'year': talk.session.conference.year})
      # Add this talk to each topic playlist
      for topic in talk.topics:
          # Always do newest talks to oldest for topic playlists
          playlists[f'Topics/GC-T-{topic}'].insert(0, {...})
      # If talk title says this is sustaining or church audit report, skip it for this speaker
      if -1 != talk.title.find("Sustaining of") or talk.title.startswith("Church Auditing"):
          return
      # Always do newest talks to oldest for speaker playlists
      playlists[f'Speakers/GC-S-{talk.speaker}'].insert(0, {...})
  \<close>
\<close>

definition modify_playlist ::
  "string \<Rightarrow> (playlist_entry list \<Rightarrow> playlist_entry list) \<Rightarrow> playlists \<Rightarrow> playlists option" where
  "modify_playlist key f playlists =
     (if key \<in> fst ` set playlists
      then Some (map (\<lambda>kv. if fst kv = key then (fst kv, f (snd kv)) else kv) playlists)
      else None)"

fun insert_topics :: "playlist_entry \<Rightarrow> string list \<Rightarrow> playlists \<Rightarrow> playlists option" where
  "insert_topics entry [] playlists = Some playlists"
| "insert_topics entry (topic # rest) playlists =
     (case modify_playlist (''Topics/GC-T-'' @ topic) (\<lambda>v. entry # v) playlists of
        None \<Rightarrow> None
      | Some playlists' \<Rightarrow> insert_topics entry rest playlists')"

definition playlist_entry_of :: "args \<Rightarrow> Talk \<Rightarrow> Audio \<Rightarrow> real \<Rightarrow> playlist_entry" where
  "playlist_entry_of a talk audio duration =
     \<lparr> entry_duration = duration,
       entry_path = ''../'' @ get_relative_path a (talk_session talk) @ ''/'' @ audio_file audio,
       entry_title = talk_title talk,
       entry_year = conf_year (sess_conference (talk_session talk)) \<rparr>"

definition update_playlists ::
  "lib \<Rightarrow> args \<Rightarrow> playlists \<Rightarrow> Talk \<Rightarrow> Audio \<Rightarrow> world \<Rightarrow> playlists outcome" where
  "update_playlists L a playlists talk audio w =
     (case (case files w (audio_file_path a talk audio) of
              None \<Rightarrow> None
            | Some content \<Rightarrow> mp3_length L content) of
        None \<Rightarrow> Raised MutagenError
      | Some duration \<Rightarrow>
          (let entry = playlist_entry_of a talk audio duration
           in case modify_playlist ''Conferences/GC-All'' (\<lambda>v. v @ [entry]) playlists of
                None \<Rightarrow> Raised KeyError
              | Some playlists1 \<Rightarrow>
                  (case insert_topics entry (talk_topics talk) playlists1 of
                     None \<Rightarrow> Raised KeyError
                   | Some playlists2 \<Rightarrow>
                       if procedural (talk_title talk) then Return playlists2
                       else
                         (case modify_playlist (''Speakers/GC-S-'' @ talk_speaker talk)
                                 (\<lambda>v. entry # v) playlists2 of
                            None \<Rightarrow> Raised KeyError
                          | Some playlists3 \<Rightarrow> Return playlists3))))"

subsection \<open>Downloading\<close>

definition get_audio :: "lib \<Rightarrow> args \<Rightarrow> Talk \<Rightarrow> world \<Rightarrow> Audio option outcome \<times> world" where
  "get_audio L a talk w =
     (case get_html L a (LDS_ORG_URL @ decode L (talk_link talk)) False w of
        (link_html, w') \<Rightarrow>
          (case resolve_audio link_html of Inl e \<Rightarrow> Raised e | Inr audio \<Rightarrow> Return audio, w'))"

text \<open>
  \<^verbatim>\<open>
  def download_audio(progress_bar, args, file_path, audio):
      if not os.path.isfile(file_path):
          try:
              req = urllib.request.Request(audio.link)
              with urllib.request.urlopen(req) as response:
                  data = response.read()
                  write_mp3_to_disk(data, file_path)
                  return data
          except Exception as err:
              # Remove partial audio file download
              if os.path.isfile(file_path):
                  os.remove(file_path)
              progress_bar.write(err, file=sys.stderr)
              return False
      return True
  \<close>
  The caller tests the result for truth: downloaded data count when they are
  not empty. Writing the file is taken to succeed, and so is the progress
  bar's \<open>write\<close>.
\<close>

definition download_audio :: "lib \<Rightarrow> string \<Rightarrow> Audio \<Rightarrow> world \<Rightarrow> bool \<times> world" where
  "download_audio L file_path audio w =
     (if files w file_path = None
      then (let w = w\<lparr>events := events w @ [NetRequest (audio_link audio)]\<rparr>
            in case urlopen L (audio_link audio) of
                 None \<Rightarrow> (False, w)
               | Some data \<Rightarrow> (data \<noteq> [], w\<lparr>files := (files w)(file_path \<mapsto> data)\<rparr>))
      else (True, w))"

text \<open>\<open>f'{month:02d}'\<close>.\<close>

definition str_int_02d :: "int \<Rightarrow> string" where
  "str_int_02d n = (if 0 \<le> n \<and> n < 10 then CHR ''0'' # str_int n else str_int n)"

definition album :: "args \<Rightarrow> Talk \<Rightarrow> string" where
  "album a talk =
     (let talk_year = conf_year (sess_conference (talk_session talk));
          talk_month = conf_month (sess_conference (talk_session talk));
          relevant_years = 5
      in if talk_year < max_year a - relevant_years
         then ''GC '' @ str_int (max_year a - relevant_years) @ ''-'' @ str_int (min_year a)
         else ''GC '' @ str_int talk_year @ ''-'' @ str_int_02d talk_month)"

text \<open>
  The body of the loop of \<open>download_all_content\<close> for a talk whose audio was
  resolved:
  \<^verbatim>\<open>
      relpath = get_relative_path(args, talk.session)
      file_path = f'{get_output_dir(args)}/{relpath}/{audio.file}'
      if download_audio(progress_bar, args, file_path, audio):
          mp3_file = MP3(file_path, ID3=EasyID3)
          ...
          mp3_file['title'] = talk.title
          mp3_file.save()
          if not args.noplaylists:
              update_playlists(args, playlists, talk, audio)
  \<close>
\<close>

definition store_talk ::
  "lib \<Rightarrow> args \<Rightarrow> playlists \<Rightarrow> Talk \<Rightarrow> Audio \<Rightarrow> world \<Rightarrow> playlists outcome \<times> world" where
  "store_talk L a playlists talk audio w =
     (let file_path = audio_file_path a talk audio
      in case download_audio L file_path audio w of
           (ok, w1) \<Rightarrow>
             if ok
             then (case (case files w1 file_path of
                           None \<Rightarrow> None
                         | Some content \<Rightarrow>
                             (case mp3_length L content of
                                None \<Rightarrow> None
                              | Some d \<Rightarrow> Some content)) of
                     None \<Rightarrow> (Raised MutagenError, w1)
                   | Some content \<Rightarrow>
                       (let w2 = w1\<lparr>files := (files w1)
                                   (file_path \<mapsto> id3_save L (album a talk) (talk_title talk) content)\<rparr>
                        in if \<not> noplaylists a
                           then (update_playlists L a playlists talk audio w2, w2)
                           else (Return playlists, w2)))
             else (Return playlists, w1))"

text \<open>
  \<^verbatim>\<open>
      with tqdm(total=len(all_talks), unit="talks") as progress_bar:
          ...
          for talk in all_talks:
              progress_bar.set_description_str(talk.title, refresh=True)
              audio = get_audio(args, talk)
              if audio:
                  ...
              progress_bar.update(1)
              if hasattr(progress_bar, 'running') and not progress_bar.running:
                  break
  \<close>
\<close>

fun download_loop ::
  "lib \<Rightarrow> args \<Rightarrow> Talk list \<Rightarrow> playlists \<Rightarrow> bool \<times> world
     \<Rightarrow> unit outcome \<times> playlists \<times> bool \<times> world" where
  "download_loop L a [] playlists rw = (Return (), playlists, rw)"
| "download_loop L a (talk # rest) playlists rw =
     (case check_events L rw of
        (running, w) \<Rightarrow>
          (case get_audio L a talk w of
             (Return audio, w1) \<Rightarrow>
               (case (case audio of
                        None \<Rightarrow> (Return playlists, w1)
                      | Some au \<Rightarrow> store_talk L a playlists talk au w1) of
                  (Return playlists', w2) \<Rightarrow>
                    (case check_events L (running, w2) of
                       (running, w3) \<Rightarrow>
                         if stop L running then (Return (), playlists', running, w3)
                         else download_loop L a rest playlists' (running, w3))
                | (SysExit n, w2) \<Rightarrow> (SysExit n, playlists, running, w2)
                | (Raised e, w2) \<Rightarrow> (Raised e, playlists, running, w2))
           | (SysExit n, w1) \<Rightarrow> (SysExit n, playlists, running, w1)
           | (Raised e, w1) \<Rightarrow> (Raised e, playlists, running, w1)))"

text \<open>
  \<^verbatim>\<open>
  def write_playlists(args, playlists):
      with tqdm(total=len(playlists.keys()), unit="playlists") as progress_bar:
          progress_bar.write("Writing playlists")
          for key, value in playlists.items():
              progress_bar.set_description_str(key+".m3u")
              write_playlist_file(args, key, value)
              progress_bar.update(1)
              if hasattr(progress_bar, 'running') and not progress_bar.running:
                  break
  \<close>
\<close>

fun write_playlists_loop :: "lib \<Rightarrow> args \<Rightarrow> playlists \<Rightarrow> bool \<times> world \<Rightarrow> bool \<times> world" where
  "write_playlists_loop L a [] rw = rw"
| "write_playlists_loop L a (kv # rest) rw =
     (case check_events L rw of
        (running, w) \<Rightarrow>
          (let w1 = w\<lparr>files := write_playlist_file a (fst kv) (snd kv) (files w)\<rparr>
           in case check_events L (running, w1) of
                (running, w2) \<Rightarrow>
                  if stop L running then (running, w2)
                  else write_playlists_loop L a rest (running, w2)))"

definition write_playlists :: "lib \<Rightarrow> args \<Rightarrow> playlists \<Rightarrow> world \<Rightarrow> unit outcome \<times> world" where
  "write_playlists L a playlists w =
     (case write_playlists_loop L a playlists (True, w) of
        (running, w') \<Rightarrow> (bar_exit L running (Return ()), w'))"

text \<open>\<open>shutil.rmtree\<close> of the language's cache directory.\<close>

definition remove_cached_files :: "args \<Rightarrow> world \<Rightarrow> world" where
  "remove_cached_files a w =
     w\<lparr>cache := (\<lambda>p. if startswith p (cache_home a @ ''/'' @ lang a @ ''/'') then None
                       else cache w p)\<rparr>"

text \<open>
  \<^verbatim>\<open>
  def download_all_content(args):
      all_talks = get_all_talks(args)
      if not args.noplaylists:
          playlists = create_playlists(args, all_talks)
      with tqdm(total=len(all_talks), unit="talks") as progress_bar:
          ... (the loop above)
      if not args.noplaylists:
          write_playlists(args, playlists)
      if not args.nocleanup:
          remove_cached_files(args)
  \<close>
  \<open>download_talks\<close> is the function from its second statement on. An
  exception that leaves the \<open>with\<close> block passes through \<open>__exit__\<close> as well.
\<close>

definition download_talks :: "lib \<Rightarrow> args \<Rightarrow> Talk list \<Rightarrow> world \<Rightarrow> unit outcome \<times> world" where
  "download_talks L a all_talks w =
     (let playlists = (if \<not> noplaylists a then create_playlists a all_talks else [])
      in case download_loop L a all_talks playlists (True, w) of
           (res, playlists', running, w1) \<Rightarrow>
             (case bar_exit L running res of
                Return u \<Rightarrow>
                  (case (if \<not> noplaylists a then write_playlists L a playlists' w1
                         else (Return (), w1)) of
                     (Return u', w2) \<Rightarrow>
                       (Return (), if \<not> nocleanup a then remove_cached_files a w2 else w2)
                   | (SysExit n, w2) \<Rightarrow> (SysExit n, w2)
                   | (Raised e, w2) \<Rightarrow> (Raised e, w2))
              | SysExit n \<Rightarrow> (SysExit n, w1)
              | Raised e \<Rightarrow> (Raised e, w1)))"

definition download_all_content :: "lib \<Rightarrow> args \<Rightarrow> world \<Rightarrow> unit outcome \<times> world" where
  "download_all_content L a w =
     (case get_all_talks L a w of
        (Return all_talks, w1) \<Rightarrow> download_talks L a all_talks w1
      | (SysExit n, w1) \<Rightarrow> (SysExit n, w1)
      | (Raised e, w1) \<Rightarrow> (Raised e, w1))"

subsection \<open>Order of the discovered conferences\<close>

text \<open>
  \<open>earlier c d\<close>: conference \<open>c\<close> comes before \<open>d\<close> by (year, month).
  \<open>found_conferences\<close> is the list \<open>get_all_conferences\<close> holds before it
  reverses it: the entries of the index itself, then those of the groups.
\<close>

definition earlier :: "Conference \<Rightarrow> Conference \<Rightarrow> bool" where
  "earlier c d =
     (conf_year c < conf_year d \<or> (conf_year c = conf_year d \<and> conf_month c < conf_month d))"


subsection \<open>Example configuration\<close>

text \<open>A concrete library, configuration and playlist entry, for the examples.\<close>

definition example_lib :: lib where
  "example_lib = \<lparr> html_feed = simple_feed False [], html_unescape = id, quote_plus = id,
     unquote_plus = id, urlopen = (\<lambda>u. None), decompress = Some,
     mp3_length = (\<lambda>c. Some (real (length c))), id3_save = (\<lambda>album title c. c),
     tqdm = Tqdm, cancel_poll = None \<rparr>"

definition example_args :: args where
  "example_args = \<lparr> lang = ''eng'', speaker_min = 3, start = 1971, end_year = 2024, dest = ''/m'',
     nocleanup = False, verbose = False, nonumbers = False, noplaylists = False,
     min_year = 1971, max_year = 2024, cache_home = ''/c'' \<rparr>"

definition example_entry :: playlist_entry where
  "example_entry = \<lparr> entry_duration = 754, entry_path = ''../MP3/2020/April/10-Saturday Morning Session/a.mp3'',
     entry_title = ''Hear Him'', entry_year = 2020 \<rparr>"

subsection \<open>An example site\<close>

text \<open>
  A small catalogue for the examples: an index with one conference of its own
  (April 2021) and one group (2010-2019) of two conferences, a conference
  document with one session of three talks, one topic with two associated
  talks, and the talk documents. Documents arrive as they are
  (\<open>decompress\<close> returns its argument), and every audio file lasts 754 seconds.
\<close>

definition uchtdorf_doc :: string where
  \<open>uchtdorf_doc =
     ''<p><a href="https://m.org/a/u.mp3?lang=eng">This Page (MP3)</a></p>''\<close>

definition index_doc :: string where
  \<open>index_doc =
     ''<a href="/gc/2021/04?lang=eng"><div><img></div><span>April 2021</span></a><a'' @
     '' href="/gc/20102019?lang=eng"><div><img></div><span>2010-2019</span></a>''\<close>

definition group_doc :: string where
  \<open>group_doc =
     ''<a href="/gc/2019/10?lang=eng"><div><img></div><span>October 2019</span></a>'' @
     ''<a href="/gc/2019/04?lang=eng"><div><img></div><span>April 2019</span></a>''\<close>

definition conf_doc :: string where
  \<open>conf_doc =
     ''<a href="/gc/2021/04/sat?lang=eng"><div><p><span>Saturday Morning Session</s'' @
     ''pan></p></div></a><ul><li><a href="/gc/2021/04/11n?lang=eng"><div><p><span>H'' @
     ''ear Him</span></p><p>Russell M. Nelson</p></div></a></li><li><a href="/gc/20'' @
     ''21/04/12e?lang=eng"><div><p><span>Sustaining of General Authorities</span></'' @
     ''p><p>Henry B. Eyring</p></div></a></li><li><a href="/gc/2021/04/13u?lang=eng'' @
     ''"><div><p><span>Hope</span></p><p>Dieter F. Uchtdorf</p></div></a></li></ul>''\<close>

definition topics_doc :: string where
  \<open>topics_doc =
     ''<a href="/gc/topics/faith?lang=eng"><div><div><div><h4>Faith</h4></div></div'' @
     ''></div><hr></a>''\<close>

definition faith_doc :: string where
  \<open>faith_doc =
     ''<a href="/gc/2021/04/11n?lang=eng"><div><div><div><div><h6>April 2021</h6><h'' @
     ''6>Russell M. Nelson</h6></div></div><div><h4>Hear Him</h4></div></div></div>'' @
     ''</a><a href="/gc/2021/04/12e?lang=eng"><div><div><div><div><h6>April 2021</h'' @
     ''6><h6>Henry B. Eyring</h6></div></div><div><h4>Sustaining of General Authori'' @
     ''ties</h4></div></div></div></a>''\<close>

definition nelson_doc :: string where
  \<open>nelson_doc =
     ''<p><a href="https://m.org/a/n.mp3?lang=eng">This Page (MP3)</a></p>''\<close>

definition eyring_doc :: string where
  \<open>eyring_doc =
     ''<p><a href="https://m.org/a/e.mp3?lang=eng">This Page (MP3)</a></p>''\<close>

definition site_urlopen :: "string \<Rightarrow> string option" where
  "site_urlopen u =
     (if u = LDS_ORG_URL @ ''/study/general-conference?lang=eng'' then Some index_doc
      else if u = LDS_ORG_URL @ ''/gc/20102019?lang=eng'' then Some group_doc
      else if u = LDS_ORG_URL @ ''/gc/2021/04?lang=eng'' then Some conf_doc
      else if u = LDS_ORG_URL @ ''/study/general-conference/topics?lang=eng'' then Some topics_doc
      else if u = LDS_ORG_URL @ ''/gc/topics/faith?lang=eng'' then Some faith_doc
      else if u = LDS_ORG_URL @ ''/gc/2021/04/11n?lang=eng'' then Some nelson_doc
      else if u = LDS_ORG_URL @ ''/gc/2021/04/12e?lang=eng'' then Some eyring_doc
      else if u = LDS_ORG_URL @ ''/gc/2021/04/13u?lang=eng'' then Some uchtdorf_doc
      else if u = ''https://m.org/a/n.mp3?lang=eng'' then Some ''ID3-n''
      else if u = ''https://m.org/a/e.mp3?lang=eng'' then Some ''ID3-e''
      else if u = ''https://m.org/a/u.mp3?lang=eng'' then Some ''ID3-u''
      else None)"

definition site_lib :: lib where
  "site_lib = \<lparr> html_feed = simple_feed False [], html_unescape = id, quote_plus = id,
     unquote_plus = id, urlopen = site_urlopen, decompress = Some,
     mp3_length = (\<lambda>c. Some 754), id3_save = (\<lambda>album title c. c),
     tqdm = Tqdm, cancel_poll = None \<rparr>"

definition site_args :: args where
  "site_args = \<lparr> lang = ''eng'', speaker_min = 1, start = 2018, end_year = 2021, dest = ''/m'',
     nocleanup = False, verbose = False, nonumbers = False, noplaylists = False,
     min_year = 1971, max_year = 2024, cache_home = ''/c'' \<rparr>"

definition world0 :: world where
  "world0 = \<lparr> cache = Map.empty, files = Map.empty, events = [], polls = 0 \<rparr>"

text \<open>Talk documents: with the download anchor, with the embedded script only,
  with neither, and with a script blob that is not base64.\<close>

definition talk_doc_direct :: string where
  \<open>talk_doc_direct = ''<p><a class="x" href="https://m.org/a/2021-04-1010-x.mp3?lang=eng" download>This Page (MP3)</a></p>''\<close>

definition talk_doc_script :: string where
  \<open>talk_doc_script = ''<body><script>window.__INITIAL_STATE__="eyJtZWRpYVVybCI6Imh0dHBzOi8vbS5vcmcvYS8yMDIyLTA0LTEwMTAteC5tcDMiLCJ2YXJpYW50IjoiYXVkaW8ifQ==";</script></body>''\<close>

definition talk_doc_none :: string where
  \<open>talk_doc_none = ''<body><p>Music by the choir</p></body>''\<close>

definition talk_doc_bad_blob :: string where
  \<open>talk_doc_bad_blob = ''<script>window.__INITIAL_STATE__="abcde";</script>''\<close>

subsection \<open>Cache use\<close>

text \<open>
  \<open>response_text\<close> is what a request for a URL yields: the decoded body, the
  empty string when anything raises. \<open>bypassing w w'\<close>: between the worlds \<open>w\<close>
  and \<open>w'\<close> the cache and the output tree did not change and nothing but
  network requests was logged, so the cache was neither read nor written.
\<close>

definition response_text :: "lib \<Rightarrow> string \<Rightarrow> string" where
  "response_text L url =
     (case urlopen L url of
        None \<Rightarrow> []
      | Some data \<Rightarrow> (case decompress L data of None \<Rightarrow> [] | Some html \<Rightarrow> html))"

fun is_request :: "event \<Rightarrow> bool" where
  "is_request (NetRequest u) = True"
| "is_request (CacheRead p) = False"
| "is_request (CacheWrite p) = False"

definition bypassing :: "world \<Rightarrow> world \<Rightarrow> bool" where
  "bypassing w w' =
     (cache w' = cache w \<and> files w' = files w
      \<and> (\<exists>es. events w' = events w @ es \<and> list_all is_request es))"

definition talk_url :: "lib \<Rightarrow> Talk \<Rightarrow> string" where
  "talk_url L talk = html_unescape L (LDS_ORG_URL @ decode L (talk_link talk))"

text \<open>The talks of the example site that are not procedural items.\<close>

definition site_session :: Session where
  "site_session =
     Session (Conference ''/gc/2021/04?lang=eng'' ''April 2021'' 2021 4)
       ''/gc/2021/04/sat?lang=eng'' ''Saturday Morning Session'' 10"

definition nelson_talk :: Talk where
  "nelson_talk =
     Talk site_session ''/gc/2021/04/11n?lang=eng'' ''Hear Him'' ''Russell M. Nelson'' [''Faith'']"


subsection \<open>What the extractor builds\<close>


definition clean_entries :: "playlists \<Rightarrow> bool" where
  "clean_entries playlists =
     list_all (\<lambda>kv. list_all (\<lambda>e. \<not> procedural (entry_title e)) (snd kv)) playlists"

section \<open>Properties\<close>

subsection \<open>Duration text\<close>

lemma py_int_float_mod:
  assumes "0 < k" and "0 < n"
  shows "py_int (py_float_mod (d / of_int k) (of_int n)) = (\<lfloor>d\<rfloor> div k) mod n"
proof -
  define y where "y = d / of_int k"
  define q where "q = \<lfloor>y / of_int n\<rfloor>"
  have fy: "\<lfloor>y\<rfloor> = \<lfloor>d\<rfloor> div k"
    unfolding y_def using assms(1) by (simp add: floor_divide_real_eq_div)
  have fq: "q = \<lfloor>y\<rfloor> div n"
    unfolding q_def using assms(2) by (simp add: floor_divide_real_eq_div)
  have "of_int q \<le> y / of_int n"
    unfolding q_def by (rule of_int_floor_le)
  then have "of_int n * of_int q \<le> y"
    using assms(2) by (simp add: field_simps)
  then have nonneg: "0 \<le> y - of_int n * of_int q"
    by simp
  have "\<lfloor>y - of_int n * of_int q\<rfloor> = \<lfloor>y - of_int (n * q)\<rfloor>"
    by simp
  also have "\<dots> = \<lfloor>y\<rfloor> - n * q"
    by (rule floor_diff_of_int)
  also have "\<dots> = \<lfloor>y\<rfloor> mod n"
    unfolding fq by (simp add: minus_mult_div_eq_mod)
  finally have "\<lfloor>y - of_int n * of_int q\<rfloor> = (\<lfloor>d\<rfloor> div k) mod n"
    unfolding fy .
  with nonneg show ?thesis
    unfolding py_int_def py_float_mod_def y_def [symmetric] q_def [symmetric] by simp
qed

lemma mins_component: "py_int (py_float_mod (d / 60) 60) = \<lfloor>d\<rfloor> div 60 mod 60"
  using py_int_float_mod [of 60 60 d] by simp

lemma hours_component: "py_int (py_float_mod (d / (60 * 60)) 24) = \<lfloor>d\<rfloor> div 3600 mod 24"
  using py_int_float_mod [of 3600 24 d] by simp

lemma days_component: "py_int (py_float_mod (d / (60 * 60 * 24)) 7) = \<lfloor>d\<rfloor> div 86400 mod 7"
  using py_int_float_mod [of 86400 7 d] by simp

lemma weeks_component: "0 \<le> d \<Longrightarrow> py_int (d / (60 * 60 * 24 * 7)) = \<lfloor>d\<rfloor> div 604800"
  using floor_divide_real_eq_div [of 604800 d] by (simp add: py_int_def)

lemma duration_text_components:
  assumes "0 \<le> d"
  shows "get_duration_text d =
    (if \<lfloor>d\<rfloor> div 604800 = 0 then [] else str_int (\<lfloor>d\<rfloor> div 604800) @ ''w'') @
    (if \<lfloor>d\<rfloor> div 86400 mod 7 = 0 then [] else str_int (\<lfloor>d\<rfloor> div 86400 mod 7) @ ''d'') @
    (if \<lfloor>d\<rfloor> div 3600 mod 24 = 0 then [] else str_int (\<lfloor>d\<rfloor> div 3600 mod 24) @ ''h'') @
    (if \<lfloor>d\<rfloor> div 60 mod 60 = 0 then [] else str_int (\<lfloor>d\<rfloor> div 60 mod 60) @ ''m'')"
proof -
  define w where "w = \<lfloor>d\<rfloor> div 604800"
  define dd where "dd = \<lfloor>d\<rfloor> div 86400 mod 7"
  define h where "h = \<lfloor>d\<rfloor> div 3600 mod 24"
  define m where "m = \<lfloor>d\<rfloor> div 60 mod 60"
  have "get_duration_text d =
    (let text = [];
         text = (if w \<noteq> 0 then text @ str_int w @ ''w'' else text);
         text = (if dd \<noteq> 0 then text @ str_int dd @ ''d'' else text);
         text = (if h \<noteq> 0 then text @ str_int h @ ''h'' else text);
         text = (if m \<noteq> 0 then text @ str_int m @ ''m'' else text)
     in text)"
    unfolding get_duration_text_def Let_def
      mins_component hours_component days_component weeks_component [OF assms]
      w_def dd_def h_def m_def ..
  also have "\<dots> = (if w = 0 then [] else str_int w @ ''w'') @
    (if dd = 0 then [] else str_int dd @ ''d'') @
    (if h = 0 then [] else str_int h @ ''h'') @
    (if m = 0 then [] else str_int m @ ''m'')"
    by (simp add: Let_def)
  finally show ?thesis
    unfolding w_def dd_def h_def m_def .
qed




subsection \<open>Title cleaning\<close>

lemma set_rstrip: "set (rstrip s) \<subseteq> set s"
  unfolding rstrip_def using set_dropWhileD [of _ isspace "rev s"] by auto

lemma rstrip_no_trailing_space: "rstrip s = [] \<or> \<not> isspace (last (rstrip s))"
proof (cases "dropWhile isspace (rev s)")
  case Nil
  then show ?thesis by (simp add: rstrip_def)
next
  case (Cons c cs)
  then have "\<not> isspace c" using hd_dropWhile [of isspace "rev s"] by simp
  moreover have "last (rstrip s) = c" using Cons by (simp add: rstrip_def)
  ultimately show ?thesis by simp
qed

lemma rstrip_idem: "rstrip (rstrip s) = rstrip s"
  by (simp add: rstrip_def)

lemma isalnum_not_markup: "isalnum c \<or> c \<in> set keepcharacters \<Longrightarrow> c \<noteq> CHR ''<'' \<and> c \<noteq> CHR ''&''"
  by (auto simp: isalnum_def keepcharacters_def)

lemma clean_title_chars:
  "c \<in> set (clean_title L x) \<Longrightarrow> isalnum c \<or> c \<in> set keepcharacters"
  unfolding clean_title_def using set_rstrip by fastforce

lemma simple_feed_plain:
  "CHR ''<'' \<notin> set s \<Longrightarrow> concat (simple_feed False acc s) = rev acc @ s"
  by (induction s arbitrary: acc) auto

text \<open>
  Claim C7. Whenever the markup parser passes text without \<open><\<close> and \<open>&\<close>
  through unchanged (which \<open>HTMLParser\<close> does: such text holds neither a tag nor
  a character reference), title cleaning is idempotent. For every parser, the
  cleaned title holds only alphanumeric characters, spaces and the characters
  \<open>-\<close>, \<open>_\<close>, \<open>.\<close>, and it does not end in whitespace.
\<close>

theorem C7_clean_title:
  assumes plain: "\<forall>s. CHR ''<'' \<notin> set s \<and> CHR ''&'' \<notin> set s \<longrightarrow> concat (html_feed L s) = s"
  shows "clean_title L (clean_title L x) = clean_title L x
       \<and> (\<forall>c \<in> set (clean_title L x).
             isalnum c \<or> c = CHR '' '' \<or> c = CHR ''-'' \<or> c = CHR ''_'' \<or> c = CHR ''.'')
       \<and> (clean_title L x = [] \<or> \<not> isspace (last (clean_title L x)))"
proof (intro conjI)
  define y where "y = clean_title L x"
  have keep: "\<forall>c \<in> set y. isalnum c \<or> c \<in> set keepcharacters"
    unfolding y_def using clean_title_chars by blast
  then have "CHR ''<'' \<notin> set y \<and> CHR ''&'' \<notin> set y"
    using isalnum_not_markup by blast
  with plain have "MLStripper_get_data L y = y"
    by (simp add: MLStripper_get_data_def)
  moreover have "filter (\<lambda>c. isalnum c \<or> c \<in> set keepcharacters) y = y"
    using keep by (simp add: filter_id_conv)
  moreover have "rstrip y = y"
    unfolding y_def clean_title_def by (rule rstrip_idem)
  ultimately have "clean_title L y = y"
    by (simp add: clean_title_def)
  then show "clean_title L (clean_title L x) = clean_title L x"
    unfolding y_def .
  show "\<forall>c \<in> set (clean_title L x).
          isalnum c \<or> c = CHR '' '' \<or> c = CHR ''-'' \<or> c = CHR ''_'' \<or> c = CHR ''.''"
    using keep unfolding y_def keepcharacters_def by auto
  show "clean_title L x = [] \<or> \<not> isspace (last (clean_title L x))"
    unfolding clean_title_def by (rule rstrip_no_trailing_space)
qed

theorem C7_clean_title_witness:
  "clean_title example_lib ''<i>Hi</i> there, &  '' = ''Hi there''
   \<and> clean_title example_lib (clean_title example_lib ''<i>Hi</i> there, &  '')
       = clean_title example_lib ''<i>Hi</i> there, &  ''"
proof -
  have plain: "\<forall>s. CHR ''<'' \<notin> set s \<and> CHR ''&'' \<notin> set s \<longrightarrow> concat (html_feed example_lib s) = s"
    by (simp add: example_lib_def simple_feed_plain)
  have "clean_title example_lib ''<i>Hi</i> there, &  '' = ''Hi there''"
    by code_simp
  with C7_clean_title [OF plain, of "''<i>Hi</i> there, &  ''"] show ?thesis
    by simp
qed


subsection \<open>Short durations\<close>

lemma duration_text_short:
  assumes "0 \<le> d" and "d < 60"
  shows "get_duration_text d = []"
proof -
  define s where "s = \<lfloor>d\<rfloor>"
  have s: "0 \<le> s" "s < 60"
    unfolding s_def using assms by (simp_all add: floor_less_iff)
  have w: "s div 604800 = 0" using s by (intro div_pos_pos_trivial) simp_all
  have dd: "s div 86400 = 0" using s by (intro div_pos_pos_trivial) simp_all
  have h: "s div 3600 = 0" using s by (intro div_pos_pos_trivial) simp_all
  have m: "s div 60 = 0" using s by (intro div_pos_pos_trivial) simp_all
  show ?thesis
    unfolding duration_text_components [OF assms(1)] s_def [symmetric] w dd h m by simp
qed

lemma duration_text_negative_example: "get_duration_text (- 1) = ''6d23h59m''"
  by code_simp

text \<open>
  Claim C10. For every duration from 0 up to, not including, 60 seconds the
  duration text is empty; so the metadata line of a playlist entry of that
  duration reads \<open>#EXTINF:, title\<close>, and the summary of a playlist of that total
  duration ends after the count. (Durations are lengths of audio files, hence
  not negative; for a negative number the function reports days, hours and
  minutes, see \<open>duration_text_negative_example\<close>.)
\<close>

theorem C10_short_duration:
  "0 \<le> d \<and> d < 60 \<longrightarrow>
     get_duration_text d = []
   \<and> (entry_duration e = d \<longrightarrow>
        playlist_entry_text e =
          ''#EXTINF:, '' @ entry_title e @ [CHR 0x0A]
            @ str_replace CHR ''/'' (CHR 0x5C) (entry_path e) @ [CHR 0x0A, CHR 0x0A])
   \<and> get_playlist_info first last' count d =
        (if first \<noteq> 0 \<and> last' \<noteq> 0 then str_int first @ ''-'' @ str_int last' @ '', '' else [])
        @ (if count \<noteq> 0 then str_int count @ '', '' else [])"
proof (intro impI)
  assume "0 \<le> d \<and> d < 60"
  then have empty: "get_duration_text d = []"
    using duration_text_short by blast
  show "get_duration_text d = []
   \<and> (entry_duration e = d \<longrightarrow>
        playlist_entry_text e =
          ''#EXTINF:, '' @ entry_title e @ [CHR 0x0A]
            @ str_replace CHR ''/'' (CHR 0x5C) (entry_path e) @ [CHR 0x0A, CHR 0x0A])
   \<and> get_playlist_info first last' count d =
        (if first \<noteq> 0 \<and> last' \<noteq> 0 then str_int first @ ''-'' @ str_int last' @ '', '' else [])
        @ (if count \<noteq> 0 then str_int count @ '', '' else [])"
    using empty by (simp add: playlist_entry_text_def get_playlist_info_def Let_def)
qed

theorem C10_short_duration_witness:
  "(0::real) \<le> 119 / 2 \<and> (119 / 2 :: real) < 60
   \<and> get_duration_text (119 / 2) = []
   \<and> playlist_entry_text (example_entry \<lparr> entry_duration := 119 / 2 \<rparr>) =
        ''#EXTINF:, Hear Him'' @ [CHR 0x0A]
          @ str_replace CHR ''/'' (CHR 0x5C) (entry_path example_entry) @ [CHR 0x0A, CHR 0x0A]
   \<and> get_playlist_info 2020 2021 3 (119 / 2) = ''2020-2021, 3, ''"
proof -
  have n: "str_int 2020 = ''2020''" "str_int 2021 = ''2021''" "str_int 3 = ''3''"
    by code_simp+
  show ?thesis
    using C10_short_duration [of "119 / 2" "example_entry \<lparr> entry_duration := 119 / 2 \<rparr>" 2020 2021 3]
    by (simp add: n example_entry_def)
qed

subsection \<open>The minimum entry count\<close>

lemma write_playlist_file_below_minimum:
  assumes "playlist_data \<noteq> []"
    and "entry_year (hd playlist_data) \<noteq> 0" and "entry_year (last playlist_data) \<noteq> 0"
    and "int (length playlist_data) < speaker_min a"
  shows "write_playlist_file a playlist_path playlist_data fs =
           remove_playlist_files (get_output_dir a @ ''/'' @ playlist_path @ ''*.m3u'') fs"
  using assms by (simp add: write_playlist_file_def Let_def)

lemma write_playlist_file_at_minimum:
  assumes "playlist_data \<noteq> []" and "int (length playlist_data) \<ge> speaker_min a"
  shows "write_playlist_file a playlist_path playlist_data fs
           (playlist_file_path a playlist_path playlist_data) = Some (playlist_file_text playlist_data)"
  using assms by (simp add: write_playlist_file_def Let_def)

text \<open>
  Claim C1 (the code departs from it). With the default minimum of three, a
  topic group and the all-talks group that hold one entry each (every entry
  carries its conference year) are not written: the output tree stays empty.
\<close>

theorem C1_threshold_hits_topic_group:
  "write_playlist_file example_args ''Topics/GC-T-Faith'' [example_entry] Map.empty = Map.empty
   \<and> write_playlist_file example_args ''Conferences/GC-All'' [example_entry] Map.empty = Map.empty"
  by (simp add: write_playlist_file_def example_args_def example_entry_def
        remove_playlist_files_def)


subsection \<open>Audio resolution\<close>

lemma resolve_audio_bad_blob: "resolve_audio talk_doc_bad_blob = Inl BinasciiError"
  by code_simp

text \<open>
  Claim C4. \<open>resolve_audio\<close> looks for the download anchor first. When the
  anchor is there, the result depends on it alone: an \<open>Audio\<close> of its link and
  the file name derived from the link, or nothing when no file name can be
  derived; the script blob is not decoded. When neither anchor nor script blob
  is there, the result is nothing. When only the script blob is there and
  decodes, the media URL is searched in the decoded text: nothing when it is
  missing or no file name can be derived from it, otherwise an \<open>Audio\<close> of URL
  and file name. (A blob that is not base64 makes \<open>b64decode\<close> raise, see
  \<open>resolve_audio_bad_blob\<close>.)
\<close>

theorem C4_resolve_audio:
  "(\<forall>m. re_search MP3_DOWNLOAD_REGEX doc = Some m \<longrightarrow>
      resolve_audio doc =
        Inr (case re_match MP3_DOWNLOAD_FILENAME_REGEX (group m 1) of
               None \<Rightarrow> None
             | Some f \<Rightarrow> Some (Audio (group m 1) (group f 1))))
   \<and> (re_search MP3_DOWNLOAD_REGEX doc = None \<and> re_search SCRIPT_BASE64_REGEX doc = None \<longrightarrow>
      resolve_audio doc = Inr None)
   \<and> (\<forall>b bytes. re_search MP3_DOWNLOAD_REGEX doc = None
         \<and> re_search SCRIPT_BASE64_REGEX doc = Some b \<and> b64decode (group b 1) = Inr bytes \<longrightarrow>
      resolve_audio doc =
        Inr (case re_search MP3_MEDIAURL_REGEX (bytes_repr bytes) of
               None \<Rightarrow> None
             | Some m \<Rightarrow>
                 (case re_match MP3_MEDIAURL_FILENAME_REGEX (group m 1) of
                    None \<Rightarrow> None
                  | Some f \<Rightarrow> Some (Audio (group m 1) (group f 1)))))"
  by (auto simp: resolve_audio_def Let_def split: option.splits)

theorem C4_resolve_audio_witness:
  "resolve_audio talk_doc_script =
     Inr (Some (Audio ''https://m.org/a/2022-04-1010-x.mp3'' ''2022-04-1010-x.mp3''))
   \<and> resolve_audio talk_doc_direct =
     Inr (Some (Audio ''https://m.org/a/2021-04-1010-x.mp3?lang=eng'' ''2021-04-1010-x.mp3''))
   \<and> resolve_audio talk_doc_none = Inr None"
proof -
  have s1: "re_search MP3_DOWNLOAD_REGEX talk_doc_script = None"
    by code_simp
  have s2: "re_search SCRIPT_BASE64_REGEX talk_doc_script =
      Some ([''eyJtZWRpYVVybCI6Imh0dHBzOi8vbS5vcmcvYS8yMDIyLTA0LTEwMTAteC5tcDMiLCJ2YXJpYW50IjoiYXVkaW8ifQ==''],
            ''</body>'')"
    by code_simp
  have s3: \<open>b64decode ''eyJtZWRpYVVybCI6Imh0dHBzOi8vbS5vcmcvYS8yMDIyLTA0LTEwMTAteC5tcDMiLCJ2YXJpYW50IjoiYXVkaW8ifQ==''
      = Inr ''{"mediaUrl":"https://m.org/a/2022-04-1010-x.mp3","variant":"audio"}''\<close>
    by code_simp
  have s4: \<open>re_search MP3_MEDIAURL_REGEX
        (bytes_repr ''{"mediaUrl":"https://m.org/a/2022-04-1010-x.mp3","variant":"audio"}'')
      = Some ([''https://m.org/a/2022-04-1010-x.mp3''], [CHR 0x27])\<close>
    by code_simp
  have s5: "re_match MP3_MEDIAURL_FILENAME_REGEX ''https://m.org/a/2022-04-1010-x.mp3''
      = Some ([''2022-04-1010-x.mp3''], [])"
    by code_simp
  have d1: "re_search MP3_DOWNLOAD_REGEX talk_doc_direct =
      Some ([''https://m.org/a/2021-04-1010-x.mp3?lang=eng''], ''</p>'')"
    by code_simp
  have d2: "re_match MP3_DOWNLOAD_FILENAME_REGEX ''https://m.org/a/2021-04-1010-x.mp3?lang=eng''
      = Some ([''2021-04-1010-x.mp3''], [])"
    by code_simp
  have n1: "re_search MP3_DOWNLOAD_REGEX talk_doc_none = None"
    by code_simp
  have n2: "re_search SCRIPT_BASE64_REGEX talk_doc_none = None"
    by code_simp
  show ?thesis
    using C4_resolve_audio [of talk_doc_script] C4_resolve_audio [of talk_doc_direct]
      C4_resolve_audio [of talk_doc_none]
    by (simp add: s1 s2 s3 s4 s5 d1 d2 n1 n2 group_def)
qed

subsection \<open>Conference discovery\<close>







lemma earlier_trans: "earlier c d \<Longrightarrow> earlier d e \<Longrightarrow> earlier c e"
  by (auto simp: earlier_def)









subsection \<open>Cache use\<close>

lemma fetch_fst: "fst (fetch L a url nocache w) = response_text L url"
  by (simp add: fetch_def response_text_def Let_def split: option.splits)

lemma fetch_nocache:
  "fetch L a url True w = (response_text L url, w\<lparr>events := events w @ [NetRequest url]\<rparr>)"
  by (simp add: fetch_def response_text_def Let_def split: option.splits)

lemma get_html_nocache:
  "get_html L a url True w =
     (response_text L (html_unescape L url),
      w\<lparr>events := events w @ [NetRequest (html_unescape L url)]\<rparr>)"
  by (simp add: get_html_def Let_def fetch_nocache)

lemma bypassing_refl: "bypassing w w"
  by (simp add: bypassing_def)

lemma bypassing_trans: "bypassing w w1 \<Longrightarrow> bypassing w1 w2 \<Longrightarrow> bypassing w w2"
  unfolding bypassing_def
proof (elim conjE exE, intro conjI)
  fix es es'
  assume "events w1 = events w @ es" and "events w2 = events w1 @ es'"
    and "list_all is_request es" and "list_all is_request es'"
  then have "events w2 = events w @ (es @ es') \<and> list_all is_request (es @ es')"
    by simp
  then show "\<exists>es. events w2 = events w @ es \<and> list_all is_request es"
    by blast
qed simp_all

lemma bypassing_check_events: "bypassing w (snd (check_events L (running, w)))"
  by (simp add: check_events_def bypassing_def)

lemma bypassing_get_html_nocache: "bypassing w (snd (get_html L a url True w))"
  unfolding get_html_nocache bypassing_def
  by (simp add: exI [of _ "[NetRequest (html_unescape L url)]"])

lemma bypassing_topics_loop:
  assumes "nocleanup a"
  shows "bypassing w (snd (snd (topics_loop L a topics acc (running, w))))"
proof (induction topics arbitrary: acc running w)
  case Nil
  show ?case by (simp add: bypassing_refl)
next
  case (Cons topic topics)
  obtain r1 w1 where c1: "check_events L (running, w) = (r1, w1)"
    by (cases "check_events L (running, w)")
  obtain html w2 where
    g: "get_html L a (LDS_ORG_URL @ decode L (topic_link topic)) True w1 = (html, w2)"
    by (cases "get_html L a (LDS_ORG_URL @ decode L (topic_link topic)) True w1")
  obtain r2 w3 where c2: "check_events L (r1, w2) = (r2, w3)"
    by (cases "check_events L (r1, w2)")
  have b1: "bypassing w w1" using bypassing_check_events [of w L running] c1 by simp
  have b2: "bypassing w1 w2"
    using bypassing_get_html_nocache [of w1 L a "LDS_ORG_URL @ decode L (topic_link topic)"]
    unfolding g by simp
  have b3: "bypassing w2 w3" using bypassing_check_events [of w2 L r1] c2 by simp
  have b: "bypassing w w3" using b1 b2 b3 bypassing_trans by blast
  show ?case
    using b bypassing_trans [OF b Cons.IH] assms
    by (simp add: c1 g c2 Let_def)
qed

lemma bypassing_sessions_loop:
  "bypassing w (snd (snd (sessions_loop L tbts conference num sessions acc (running, w))))"
proof (induction sessions arbitrary: num acc running w)
  case Nil
  show ?case by (simp add: bypassing_refl)
next
  case (Cons session_info sessions)
  obtain r1 w1 where c1: "check_events L (running, w) = (r1, w1)"
    by (cases "check_events L (running, w)")
  have b1: "bypassing w w1" using bypassing_check_events [of w L running] c1 by simp
  show ?case
    using b1 bypassing_trans [OF b1 Cons.IH]
    by (simp add: c1 Let_def)
qed

lemma bypassing_conferences_loop:
  assumes "nocleanup a"
  shows "bypassing w (snd (snd (conferences_loop L a tbts confs acc (running, w))))"
proof (induction confs arbitrary: acc running w)
  case Nil
  show ?case by (simp add: bypassing_refl)
next
  case (Cons conference confs)
  obtain html w1 where
    g: "get_html L a (LDS_ORG_URL @ decode L (conf_link conference)) True w = (html, w1)"
    by (cases "get_html L a (LDS_ORG_URL @ decode L (conf_link conference)) True w")
  obtain acc' r2 w2 where
    s: "sessions_loop L tbts conference 1 (re_findall SESSIONS_REGEX html) acc (running, w1)
          = (acc', r2, w2)"
    by (cases "sessions_loop L tbts conference 1 (re_findall SESSIONS_REGEX html) acc (running, w1)")
  obtain r3 w3 where c: "check_events L (r2, w2) = (r3, w3)"
    by (cases "check_events L (r2, w2)")
  have b1: "bypassing w w1"
    using bypassing_get_html_nocache [of w L a "LDS_ORG_URL @ decode L (conf_link conference)"]
    unfolding g by simp
  have b2: "bypassing w1 w2"
    using bypassing_sessions_loop
            [of w1 L tbts conference 1 "re_findall SESSIONS_REGEX html" acc running]
    unfolding s by simp
  have b3: "bypassing w2 w3" using bypassing_check_events [of w2 L r2] c by simp
  have b: "bypassing w w3" using b1 b2 b3 bypassing_trans by blast
  show ?case
    using b bypassing_trans [OF b Cons.IH] assms
    by (simp add: g s c)
qed

lemma get_html_cached_events:
  "\<exists>es. events (snd (get_html L a url False w)) =
          events w @ CacheRead (cache_path L a (html_unescape L url)) # es"
  by (simp add: get_html_def get_from_cache_def fetch_def add_to_cache_def Let_def
        split: option.splits)

lemma get_html_cache_hit:
  assumes "cache w (cache_path L a (html_unescape L url)) = Some text" and "text \<noteq> []"
  shows "get_html L a url False w =
           (text, w\<lparr>events := events w @ [CacheRead (cache_path L a (html_unescape L url))]\<rparr>)"
  using assms by (simp add: get_html_def get_from_cache_def Let_def)

lemma get_html_cache_miss:
  assumes "cache w (cache_path L a (html_unescape L url)) = None
           \<or> cache w (cache_path L a (html_unescape L url)) = Some []"
    and "urlopen L (html_unescape L url) = Some data" and "decompress L data = Some html"
  shows "fst (get_html L a url False w) = html"
    and "cache (snd (get_html L a url False w)) (cache_path L a (html_unescape L url)) = Some html"
    and "events (snd (get_html L a url False w)) =
           events w @ [CacheRead (cache_path L a (html_unescape L url)),
                       NetRequest (html_unescape L url),
                       CacheWrite (cache_path L a (html_unescape L url))]"
  using assms
  by (auto simp: get_html_def get_from_cache_def fetch_def add_to_cache_def Let_def)

lemma snd_get_audio:
  "snd (get_audio L a talk w) = snd (get_html L a (LDS_ORG_URL @ decode L (talk_link talk)) False w)"
  by (simp add: get_audio_def split: prod.splits)

text \<open>
  Claim C9. With \<open>nocleanup\<close> set, the languages page, the topic index and the
  conference index are requested from the network without a cache read or
  write (the only event logged by the call is the request, the cache is
  unchanged, the text is the response), and the loops that fetch the topic
  documents and the conference documents log nothing but requests and leave
  the cache unchanged. A talk document is fetched through the cache whatever
  the flag: \<open>get_audio\<close> first reads the cache entry of the talk's URL; a cached
  non-empty text is used without a request, otherwise the document is
  requested and, when it arrives, written to the cache.
\<close>

theorem C9_cache_bypass:
  "(nocleanup a \<longrightarrow>
      snd (get_all_languages_map L a w) =
        w\<lparr>events := events w @ [NetRequest (html_unescape L (LDS_ORG_URL @ ''/languages''))]\<rparr>
    \<and> get_all_topics L a w =
        (map (\<lambda>topic. Topic (topic ! 0) (topic ! 1))
           (re_findall TOPICS_REGEX
              (response_text L (html_unescape L (ALL_TOPICS_URL @ ''?lang='' @ lang a)))),
         w\<lparr>events := events w @
              [NetRequest (html_unescape L (ALL_TOPICS_URL @ ''?lang='' @ lang a))]\<rparr>)
    \<and> get_all_conferences L a w =
        (case get_range_conferences L a
                (response_text L (html_unescape L (ALL_CONFERENCES_URL @ ''?lang='' @ lang a)))
                (w\<lparr>events := events w @
                     [NetRequest (html_unescape L (ALL_CONFERENCES_URL @ ''?lang='' @ lang a))]\<rparr>) of
           (range_conferences, w2) \<Rightarrow>
             (rev (get_conferences a
                     (response_text L (html_unescape L (ALL_CONFERENCES_URL @ ''?lang='' @ lang a)))
                   @ range_conferences), w2))
    \<and> bypassing w (snd (snd (topics_loop L a topics topic_talks (running, w))))
    \<and> bypassing w (snd (snd (conferences_loop L a tbts confs all_talks (running, w)))))
   \<and> (\<exists>es. events (snd (get_audio L a talk w)) =
              events w @ CacheRead (cache_path L a (talk_url L talk)) # es)
   \<and> (\<forall>text. cache w (cache_path L a (talk_url L talk)) = Some text \<and> text \<noteq> [] \<longrightarrow>
         snd (get_audio L a talk w) =
           w\<lparr>events := events w @ [CacheRead (cache_path L a (talk_url L talk))]\<rparr>)
   \<and> (\<forall>data html.
         (cache w (cache_path L a (talk_url L talk)) = None
          \<or> cache w (cache_path L a (talk_url L talk)) = Some [])
         \<and> urlopen L (talk_url L talk) = Some data \<and> decompress L data = Some html \<longrightarrow>
         cache (snd (get_audio L a talk w)) (cache_path L a (talk_url L talk)) = Some html)"
proof (intro conjI impI allI)
  assume keep: "nocleanup a"
  show "snd (get_all_languages_map L a w) =
        w\<lparr>events := events w @ [NetRequest (html_unescape L (LDS_ORG_URL @ ''/languages''))]\<rparr>"
    unfolding get_all_languages_map_def using keep by (simp add: get_html_nocache)
  show "get_all_topics L a w =
        (map (\<lambda>topic. Topic (topic ! 0) (topic ! 1))
           (re_findall TOPICS_REGEX
              (response_text L (html_unescape L (ALL_TOPICS_URL @ ''?lang='' @ lang a)))),
         w\<lparr>events := events w @
              [NetRequest (html_unescape L (ALL_TOPICS_URL @ ''?lang='' @ lang a))]\<rparr>)"
    unfolding get_all_topics_def using keep by (simp add: get_html_nocache)
  show "get_all_conferences L a w =
        (case get_range_conferences L a
                (response_text L (html_unescape L (ALL_CONFERENCES_URL @ ''?lang='' @ lang a)))
                (w\<lparr>events := events w @
                     [NetRequest (html_unescape L (ALL_CONFERENCES_URL @ ''?lang='' @ lang a))]\<rparr>) of
           (range_conferences, w2) \<Rightarrow>
             (rev (get_conferences a
                     (response_text L (html_unescape L (ALL_CONFERENCES_URL @ ''?lang='' @ lang a)))
                   @ range_conferences), w2))"
    unfolding get_all_conferences_def using keep by (simp add: get_html_nocache)
  show "bypassing w (snd (snd (topics_loop L a topics topic_talks (running, w))))"
    using keep by (rule bypassing_topics_loop)
  show "bypassing w (snd (snd (conferences_loop L a tbts confs all_talks (running, w))))"
    using keep by (rule bypassing_conferences_loop)
next
  show "\<exists>es. events (snd (get_audio L a talk w)) =
              events w @ CacheRead (cache_path L a (talk_url L talk)) # es"
    using get_html_cached_events [of L a "LDS_ORG_URL @ decode L (talk_link talk)" w]
    unfolding snd_get_audio talk_url_def .
next
  fix cached
  assume "cache w (cache_path L a (talk_url L talk)) = Some cached \<and> cached \<noteq> []"
  then have "get_html L a (LDS_ORG_URL @ decode L (talk_link talk)) False w =
      (cached, w\<lparr>events := events w @ [CacheRead (cache_path L a (talk_url L talk))]\<rparr>)"
    unfolding talk_url_def using get_html_cache_hit by blast
  then show "snd (get_audio L a talk w) =
           w\<lparr>events := events w @ [CacheRead (cache_path L a (talk_url L talk))]\<rparr>"
    unfolding snd_get_audio by simp
next
  fix data html
  assume h: "(cache w (cache_path L a (talk_url L talk)) = None
          \<or> cache w (cache_path L a (talk_url L talk)) = Some [])
         \<and> urlopen L (talk_url L talk) = Some data \<and> decompress L data = Some html"
  have "cache (snd (get_html L a (LDS_ORG_URL @ decode L (talk_link talk)) False w))
          (cache_path L a (talk_url L talk)) = Some html"
    unfolding talk_url_def
    using h get_html_cache_miss(2) [of w L a "LDS_ORG_URL @ decode L (talk_link talk)" data html]
    unfolding talk_url_def by blast
  then show "cache (snd (get_audio L a talk w)) (cache_path L a (talk_url L talk)) = Some html"
    unfolding snd_get_audio .
qed

theorem C9_cache_bypass_witness:
  "nocleanup (site_args \<lparr>nocleanup := True\<rparr>)
   \<and> snd (get_all_topics site_lib (site_args \<lparr>nocleanup := True\<rparr>) world0) =
       world0 \<lparr>events :=
         [NetRequest ''https://www.churchofjesuschrist.org/study/general-conference/topics?lang=eng'']\<rparr>
   \<and> snd (get_all_languages_map site_lib (site_args \<lparr>nocleanup := True\<rparr>) world0) =
       world0 \<lparr>events := [NetRequest ''https://www.churchofjesuschrist.org/languages'']\<rparr>
   \<and> cache (snd (get_audio site_lib (site_args \<lparr>nocleanup := True\<rparr>) nelson_talk world0))
         ''/c/eng/https://www.churchofjesuschrist.org/gc/2021/04/11n?lang=eng''
       = Some nelson_doc"
proof -
  have u: "talk_url site_lib nelson_talk = ''https://www.churchofjesuschrist.org/gc/2021/04/11n?lang=eng''"
    by (simp add: talk_url_def site_lib_def nelson_talk_def LDS_ORG_URL_def decode_def)
  have p: "cache_path site_lib (site_args \<lparr>nocleanup := True\<rparr>)
             ''https://www.churchofjesuschrist.org/gc/2021/04/11n?lang=eng''
           = ''/c/eng/https://www.churchofjesuschrist.org/gc/2021/04/11n?lang=eng''"
    by (simp add: cache_path_def get_cache_filename_def site_lib_def site_args_def)
  have o: "urlopen site_lib ''https://www.churchofjesuschrist.org/gc/2021/04/11n?lang=eng''
           = Some nelson_doc"
    by (simp add: site_lib_def site_urlopen_def LDS_ORG_URL_def)
  have d: "decompress site_lib nelson_doc = Some nelson_doc"
    by (simp add: site_lib_def)
  have c: "cache world0 ''/c/eng/https://www.churchofjesuschrist.org/gc/2021/04/11n?lang=eng'' = None"
    by (simp add: world0_def)
  have l: "lang (site_args \<lparr>nocleanup := True\<rparr>) = ''eng''" "html_unescape site_lib = id"
    by (simp_all add: site_args_def site_lib_def)
  have e: "events world0 = []" by (simp add: world0_def)
  show ?thesis
    using C9_cache_bypass [of "site_args \<lparr>nocleanup := True\<rparr>" site_lib world0 _ _ _ _ _ _ nelson_talk]
    unfolding u p l e
    using o d c
    by (simp add: ALL_TOPICS_URL_def LDS_ORG_URL_def)
qed



subsection \<open>Talks and their topics\<close>











end
